theory Spec2Isabelle
  imports Main
begin

section \<open>Strings and characters\<close>

text \<open>
  The engine is TypeScript; its strings are modelled as \<^typ>\<open>string\<close> (a list of
  \<^typ>\<open>char\<close>, the code units U+0000 to U+00FF). The white space of \<open>trim()\<close> and of
  the regular-expression class \<open>\s\<close> is TAB, LF, VT, FF, CR, SPACE and the no-break
  space U+00A0, the white-space characters of JavaScript in that range.
  \<open>toUpperCase()\<close> maps \<open>a\<close>..\<open>z\<close> to \<open>A\<close>..\<open>Z\<close>; the letters, digits and word
  characters of the patterns are the ASCII ones, as in JavaScript without the \<open>u\<close> flag.
\<close>

definition digit_chars :: string where
  "digit_chars = ''0123456789''"

definition upper_chars :: string where
  "upper_chars = ''ABCDEFGHIJKLMNOPQRSTUVWXYZ''"

definition lower_chars :: string where
  "lower_chars = ''abcdefghijklmnopqrstuvwxyz''"

definition space_chars :: string where
  "space_chars = [CHR 0x09, CHR 0x0A, CHR 0x0B, CHR 0x0C, CHR 0x0D, CHR '' '', CHR 0xA0]"

definition alnum_chars :: string where
  "alnum_chars = upper_chars @ lower_chars @ digit_chars"

definition is_digit :: "char \<Rightarrow> bool" where
  "is_digit c = (c \<in> set digit_chars)"

definition is_space :: "char \<Rightarrow> bool" where
  "is_space c = (c \<in> set space_chars)"

definition is_alnum :: "char \<Rightarrow> bool" where
  "is_alnum c = (c \<in> set alnum_chars)"

definition is_word_char :: "char \<Rightarrow> bool" where
  "is_word_char c = (c \<in> set (alnum_chars @ ''_''))"

definition to_upper :: "char \<Rightarrow> char" where
  "to_upper c = (case map_of (zip lower_chars upper_chars) c of Some u \<Rightarrow> u | None \<Rightarrow> c)"

text \<open>\<open>String.prototype.toUpperCase\<close>.\<close>

definition toUpperCase :: "string \<Rightarrow> string" where
  "toUpperCase s = map to_upper s"

text \<open>\<open>String.prototype.trim\<close>.\<close>

definition trim :: "string \<Rightarrow> string" where
  "trim s = rev (dropWhile is_space (rev (dropWhile is_space s)))"

text \<open>\<open>s.replace(/\s/g, '')\<close>: every white-space character is removed.\<close>

definition strip_ws :: "string \<Rightarrow> string" where
  "strip_ws s = filter (\<lambda>c. \<not> is_space c) s"

text \<open>\<open>s.slice(a, b)\<close> for \<open>0 \<le> a \<le> b\<close>; JavaScript clamps both ends to the length.\<close>

definition slice :: "nat \<Rightarrow> nat \<Rightarrow> string \<Rightarrow> string" where
  "slice a b s = take (b - a) (drop a s)"

text \<open>\<open>s.padStart(2, '0')\<close>.\<close>

definition padStart2 :: "string \<Rightarrow> string" where
  "padStart2 s = replicate (2 - length s) (CHR ''0'') @ s"


text \<open>\<open>xs.join('\n')\<close>.\<close>

fun join_lines :: "string list \<Rightarrow> string" where
  "join_lines [] = []"
| "join_lines [x] = x"
| "join_lines (x # y # ys) = x @ [CHR 0x0A] @ join_lines (y # ys)"

text \<open>
  \<open>parseInt(s, 10)\<close>: leading white space and one sign are skipped, the longest
  prefix of decimal digits is read; \<open>None\<close> is \<open>NaN\<close> (no digit there).
\<close>

definition digit_val :: "char \<Rightarrow> nat" where
  "digit_val c = of_char c - 48"

definition nat_of_digits :: "string \<Rightarrow> nat" where
  "nat_of_digits ds = foldl (\<lambda>a c. 10 * a + digit_val c) 0 ds"

definition parseInt :: "string \<Rightarrow> int option" where
  "parseInt s =
     (let s1 = dropWhile is_space s;
          neg = (case s1 of [] \<Rightarrow> False | c # _ \<Rightarrow> c = CHR ''-'');
          s2 = (case s1 of [] \<Rightarrow> [] | c # cs \<Rightarrow> if c = CHR ''-'' \<or> c = CHR ''+'' then cs else s1);
          ds = takeWhile is_digit s2
      in if ds = [] then None
         else Some (if neg then - int (nat_of_digits ds) else int (nat_of_digits ds)))"

text \<open>A comparison with \<open>NaN\<close> is false.\<close>

definition num_ge :: "int option \<Rightarrow> int \<Rightarrow> bool" where
  "num_ge x n = (case x of None \<Rightarrow> False | Some v \<Rightarrow> n \<le> v)"

definition num_le :: "int option \<Rightarrow> int \<Rightarrow> bool" where
  "num_le x n = (case x of None \<Rightarrow> False | Some v \<Rightarrow> v \<le> n)"

text \<open>The decimal rendering of a number in a template string.\<close>

fun string_of_nat :: "nat \<Rightarrow> string" where
  "string_of_nat n =
     (if n < 10 then [char_of (48 + n)]
      else string_of_nat (n div 10) @ [char_of (48 + n mod 10)])"

definition string_of_num :: "int option \<Rightarrow> string" where
  "string_of_num x =
     (case x of None \<Rightarrow> ''NaN''
      | Some v \<Rightarrow> if v < 0 then CHR ''-'' # string_of_nat (nat (- v)) else string_of_nat (nat v))"

section \<open>Regular expressions\<close>

text \<open>
  The patterns of the source are kept as data and run by one backtracking matcher with
  the priorities of the JavaScript engine: alternatives left to right, greedy
  quantifiers longest first, lazy ones shortest first, the leftmost start position
  wins. \<open>Cls\<close> lists the members of a character class, \<open>Rep lo hi\<close> is \<open>{lo,hi}\<close>,
  \<open>Grp i\<close> is the \<open>i\<close>-th capturing group, \<open>Bol\<close>, \<open>Eol\<close> and \<open>WordB\<close> are \<open>^\<close>, \<open>$\<close>
  (no \<open>m\<close> flag is used) and \<open>\b\<close>.
\<close>

datatype regex =
    Eps
  | Lit char
  | Cls string
  | Bol
  | Eol
  | WordB
  | Seq regex regex
  | Alt regex regex
  | Opt regex
  | Star regex
  | Plus regex
  | PlusLazy regex
  | Rep nat nat regex
  | Grp nat regex

type_synonym captures = "(nat \<times> string) list"

text \<open>
  A matcher state: the character before the current position (\<open>None\<close> at the start of
  the input), the input still to read, and the groups captured so far.
\<close>

type_synonym mstate = "char option \<times> string \<times> captures"

definition at_word_boundary :: "mstate \<Rightarrow> bool" where
  "at_word_boundary st =
     (case st of (p, s, k) \<Rightarrow>
        (case p of None \<Rightarrow> False | Some c \<Rightarrow> is_word_char c)
        \<noteq> (case s of [] \<Rightarrow> False | c # _ \<Rightarrow> is_word_char c))"

definition eat :: "(char \<Rightarrow> bool) \<Rightarrow> mstate \<Rightarrow> mstate list" where
  "eat P st =
     (case st of (p, s, k) \<Rightarrow>
        (case s of [] \<Rightarrow> [] | c # cs \<Rightarrow> if P c then [(Some c, cs, k)] else []))"

text \<open>
  The flag \<open>i\<close> compares canonical (upper-case) forms, for a literal and for the
  members of a class.
\<close>

definition lit_ok :: "bool \<Rightarrow> char \<Rightarrow> char \<Rightarrow> bool" where
  "lit_ok ci c d = (if ci then to_upper d = to_upper c else d = c)"

definition cls_ok :: "bool \<Rightarrow> string \<Rightarrow> char \<Rightarrow> bool" where
  "cls_ok ci cs d = (if ci then to_upper d \<in> set (map to_upper cs) else d \<in> set cs)"

text \<open>
  \<open>r*\<close>: an iteration that consumes nothing is rejected, as in JavaScript, so the
  length of the remaining input bounds the number of iterations.
\<close>

fun star_greedy :: "(mstate \<Rightarrow> mstate list) \<Rightarrow> nat \<Rightarrow> mstate \<Rightarrow> mstate list" where
  "star_greedy f 0 st = [st]"
| "star_greedy f (Suc n) st =
     concat (map (star_greedy f n)
       (filter (\<lambda>st'. length (fst (snd st')) < length (fst (snd st))) (f st))) @ [st]"

fun star_lazy :: "(mstate \<Rightarrow> mstate list) \<Rightarrow> nat \<Rightarrow> mstate \<Rightarrow> mstate list" where
  "star_lazy f 0 st = [st]"
| "star_lazy f (Suc n) st =
     st # concat (map (star_lazy f n)
       (filter (\<lambda>st'. length (fst (snd st')) < length (fst (snd st))) (f st)))"

fun rep_greedy :: "(mstate \<Rightarrow> mstate list) \<Rightarrow> nat \<Rightarrow> nat \<Rightarrow> mstate \<Rightarrow> mstate list" where
  "rep_greedy f lo 0 st = (if lo = 0 then [st] else [])"
| "rep_greedy f lo (Suc hi) st =
     concat (map (rep_greedy f (lo - 1) hi) (f st)) @ (if lo = 0 then [st] else [])"

definition set_cap :: "nat \<Rightarrow> mstate \<Rightarrow> mstate \<Rightarrow> mstate" where
  "set_cap i st st' =
     (case st of (p, s, k) \<Rightarrow>
        (case st' of (p', s', k') \<Rightarrow> (p', s', (i, take (length s - length s') s) # k')))"

text \<open>
  All the ways the pattern matches at the current position, in the order in which the
  backtracking engine tries them.
\<close>

primrec rmatch :: "regex \<Rightarrow> bool \<Rightarrow> mstate \<Rightarrow> mstate list" where
  "rmatch Eps ci st = [st]"
| "rmatch (Lit c) ci st = eat (lit_ok ci c) st"
| "rmatch (Cls cs) ci st = eat (cls_ok ci cs) st"
| "rmatch Bol ci st = (if fst st = None then [st] else [])"
| "rmatch Eol ci st = (if fst (snd st) = [] then [st] else [])"
| "rmatch WordB ci st = (if at_word_boundary st then [st] else [])"
| "rmatch (Seq a b) ci st = concat (map (rmatch b ci) (rmatch a ci st))"
| "rmatch (Alt a b) ci st = rmatch a ci st @ rmatch b ci st"
| "rmatch (Opt a) ci st = rmatch a ci st @ [st]"
| "rmatch (Star a) ci st = star_greedy (rmatch a ci) (length (fst (snd st))) st"
| "rmatch (Plus a) ci st =
     concat (map (\<lambda>st'. star_greedy (rmatch a ci) (length (fst (snd st'))) st')
       (rmatch a ci st))"
| "rmatch (PlusLazy a) ci st =
     concat (map (\<lambda>st'. star_lazy (rmatch a ci) (length (fst (snd st'))) st')
       (rmatch a ci st))"
| "rmatch (Rep lo hi a) ci st = rep_greedy (rmatch a ci) lo hi st"
| "rmatch (Grp i a) ci st = map (set_cap i st) (rmatch a ci st)"

text \<open>
  The match object of \<open>RegExp.prototype.exec\<close>: the matched text, the groups, and where
  the match ends (the character before the end and the input after it).
\<close>

record js_match =
  whole :: string
  caps :: captures
  before :: "char option"
  after :: string

fun search :: "regex \<Rightarrow> bool \<Rightarrow> char option \<Rightarrow> string \<Rightarrow> js_match option" where
  "search r ci p [] =
     (case rmatch r ci (p, [], []) of
        [] \<Rightarrow> None
      | (p', s', k) # _ \<Rightarrow> Some \<lparr>whole = [], caps = k, before = p', after = s'\<rparr>)"
| "search r ci p (c # cs) =
     (case rmatch r ci (p, c # cs, []) of
        [] \<Rightarrow> search r ci (Some c) cs
      | (p', s', k) # _ \<Rightarrow>
          Some \<lparr>whole = take (length (c # cs) - length s') (c # cs), caps = k,
                before = p', after = s'\<rparr>)"

text \<open>\<open>re.exec(s)\<close> and \<open>s.match(re)\<close> for a pattern without the \<open>g\<close> flag; \<open>re.test(s)\<close>.\<close>

definition re_exec :: "regex \<Rightarrow> bool \<Rightarrow> string \<Rightarrow> js_match option" where
  "re_exec r ci s = search r ci None s"

definition re_test :: "regex \<Rightarrow> bool \<Rightarrow> string \<Rightarrow> bool" where
  "re_test r ci s = (re_exec r ci s \<noteq> None)"

text \<open>\<open>m[i]\<close> for a group that took part in the match.\<close>

definition grp :: "js_match \<Rightarrow> nat \<Rightarrow> string" where
  "grp mt i = (case map_of (caps mt) i of Some w \<Rightarrow> w | None \<Rightarrow> [])"



fun cat :: "regex list \<Rightarrow> regex" where
  "cat [] = Eps"
| "cat [r] = r"
| "cat (r # rs) = Seq r (cat rs)"

fun alt :: "regex list \<Rightarrow> regex" where
  "alt [] = Eps"
| "alt [r] = r"
| "alt (r # rs) = Alt r (alt rs)"

definition lit :: "string \<Rightarrow> regex" where
  "lit s = cat (map Lit s)"

definition digit :: regex where
  "digit = Cls digit_chars"


definition alnum :: regex where
  "alnum = Cls alnum_chars"


definition ws :: regex where
  "ws = Cls space_chars"

text \<open>\<open>(JAN|FEB|MAR|APR|MAY|JUN|JUL|AUG|SEP|OCT|NOV|DEC)\<close>\<close>

definition month_names :: "string list" where
  "month_names = [''JAN'', ''FEB'', ''MAR'', ''APR'', ''MAY'', ''JUN'',
                  ''JUL'', ''AUG'', ''SEP'', ''OCT'', ''NOV'', ''DEC'']"

definition months :: regex where
  "months = alt (map lit month_names)"

section \<open>GS1 decoder (\<open>mobile-scanner/src/gs1Parse.ts\<close>)\<close>

definition GS1_GROUP_SEPARATOR :: char where
  "GS1_GROUP_SEPARATOR = CHR 0x1D"

definition preprocess :: "string \<Rightarrow> string" where
  "preprocess raw = trim (map (\<lambda>c. if c = CHR ''|'' then GS1_GROUP_SEPARATOR else c) raw)"

text \<open>
  The decoding itself is done by the library \<open>@valentynb/gs1-parser\<close>, which is not
  part of the repository: \<open>parser.decode\<close> is a parameter of the model. It throws, or
  yields no data, or yields an object with one element per decoded identifier. An
  element has a \<open>data\<close> value (a string, a \<open>Date\<close>, given by its \<open>toISOString()\<close> text, or
  any other value, given by its \<open>String(v)\<close> text) and a \<open>dataString\<close>.
\<close>

datatype gs1_value = VString string | VDate string | VOther string

record gs1_element =
  el_data :: "gs1_value option"
  el_dataString :: "string option"

datatype gs1_decoded =
    DecodeThrows
  | DecodeNoData
  | DecodeData "(string \<times> gs1_element) list"

definition elToStr :: "gs1_element option \<Rightarrow> string" where
  "elToStr el =
     (case el of
        None \<Rightarrow> []
      | Some e \<Rightarrow>
          (case el_data e of
             None \<Rightarrow> (case el_dataString e of None \<Rightarrow> [] | Some s \<Rightarrow> s)
           | Some (VString s) \<Rightarrow> s
           | Some (VDate d) \<Rightarrow> slice 0 10 d
           | Some (VOther s) \<Rightarrow> s))"

record LabelCore =
  batch_no :: string
  lot_no :: string
  expiry :: string

record Gs1LabelResult = LabelCore +
  upc_gtin :: "string option"
  serial :: "string option"

text \<open>\<open>...(x && { key: x })\<close>: the key is present only for a non-empty string.\<close>

definition opt_field :: "string \<Rightarrow> string option" where
  "opt_field x = (if x = [] then None else Some x)"

definition re_gtinMatch :: regex where
  "re_gtinMatch = cat [lit ''01'', Grp 1 (Rep 14 14 digit)]"
  \<comment> \<open>\<open>/01(\d{14})/\<close>\<close>

definition re_serialMatch :: regex where
  "re_serialMatch = cat [lit ''21'', Grp 1 (Rep 1 20 alnum)]"
  \<comment> \<open>\<open>/21([A-Za-z0-9]{1,20})/\<close>\<close>

definition re_expMatch :: regex where
  "re_expMatch = cat [lit ''17'', Grp 1 (Rep 6 6 digit)]"
  \<comment> \<open>\<open>/17(\d{6})/\<close>\<close>

definition re_batchBeforeSerial :: regex where
  "re_batchBeforeSerial =
     cat [lit ''17'', Rep 6 6 digit, lit ''10'', Grp 1 (PlusLazy alnum), lit ''21'']"
  \<comment> \<open>\<open>/17\d{6}10([A-Za-z0-9]+?)21/\<close>\<close>

definition re_batchToEnd :: regex where
  "re_batchToEnd = cat [lit ''17'', Rep 6 6 digit, lit ''10'', Grp 1 (Plus alnum)]"
  \<comment> \<open>\<open>/17\d{6}10([A-Za-z0-9]+)/\<close>\<close>

text \<open>The expiry of identifier 17: \<open>YYMMDD\<close> to \<open>YYYY-MM-DD\<close>, pivot year 50.\<close>

definition yymmdd_to_iso :: "string \<Rightarrow> string" where
  "yymmdd_to_iso d =
     (let yy = slice 0 2 d; mm = slice 2 4 d; dd = slice 4 6 d;
          yyyy = (if num_ge (parseInt yy) 50 then ''19'' @ yy else ''20'' @ yy)
      in yyyy @ ''-'' @ mm @ ''-'' @ dd)"

definition parseConcatenatedGs1 :: "string \<Rightarrow> Gs1LabelResult option" where
  "parseConcatenatedGs1 s =
     (let t = strip_ws s in
      if length t < 20 then None
      else
        let gtinMatch = re_exec re_gtinMatch False t;
            serialMatch = re_exec re_serialMatch False t;
            expMatch = re_exec re_expMatch False t;
            batch = (case re_exec re_batchBeforeSerial False t of
                       Some m \<Rightarrow> grp m 1
                     | None \<Rightarrow>
                         (case re_exec re_batchToEnd False t of
                            Some m \<Rightarrow> grp m 1
                          | None \<Rightarrow> []));
            gtin = (case gtinMatch of Some m \<Rightarrow> grp m 1 | None \<Rightarrow> []);
            serial = (case serialMatch of Some m \<Rightarrow> grp m 1 | None \<Rightarrow> []);
            expiry = (case expMatch of Some m \<Rightarrow> yymmdd_to_iso (grp m 1) | None \<Rightarrow> [])
        in if gtin = [] \<and> expiry = [] \<and> batch = [] \<and> serial = [] then None
           else Some \<lparr>batch_no = batch, lot_no = batch, expiry = expiry,
                       upc_gtin = opt_field gtin, serial = opt_field serial\<rparr>)"

text \<open>
  The library's answer as the decoder reads it: \<open>None\<close> when it threw, gave no data or
  gave none of the four fields, so that the positional decoder is tried.
\<close>

definition primary_decode :: "gs1_decoded \<Rightarrow> Gs1LabelResult option" where
  "primary_decode res =
     (case res of
        DecodeThrows \<Rightarrow> None
      | DecodeNoData \<Rightarrow> None
      | DecodeData data \<Rightarrow>
          if data = [] then None
          else
            let batch = elToStr (map_of data ''batch'');
                expiryRaw = elToStr (map_of data ''expDate'');
                expiry = (if expiryRaw \<noteq> []
                          then (if 10 \<le> length expiryRaw then slice 0 10 expiryRaw else expiryRaw)
                          else []);
                gtin = elToStr (map_of data ''gtin'');
                serial = elToStr (map_of data ''serial'')
            in if batch \<noteq> [] \<or> expiry \<noteq> [] \<or> gtin \<noteq> [] \<or> serial \<noteq> []
               then Some \<lparr>batch_no = batch, lot_no = batch, expiry = expiry,
                           upc_gtin = opt_field gtin, serial = opt_field serial\<rparr>
               else None)"

definition parseGs1ToLabelJson ::
  "(string \<Rightarrow> gs1_decoded) \<Rightarrow> string \<Rightarrow> Gs1LabelResult option" where
  "parseGs1ToLabelJson decode raw =
     (let normalized = preprocess raw in
      if normalized = [] then None
      else
        (case primary_decode (decode normalized) of
           Some r \<Rightarrow> Some r
         | None \<Rightarrow> parseConcatenatedGs1 normalized))"

section \<open>OCR format registry (\<open>labelFormats.ts\<close>)\<close>



definition mon :: "(string \<times> string) list" where
  "mon = [(''JAN'', ''01''), (''FEB'', ''02''), (''MAR'', ''03''), (''APR'', ''04''),
          (''MAY'', ''05''), (''JUN'', ''06''), (''JUL'', ''07''), (''AUG'', ''08''),
          (''SEP'', ''09''), (''OCT'', ''10''), (''NOV'', ''11''), (''DEC'', ''12'')]"

definition re_yyyyMmm :: regex where
  "re_yyyyMmm = cat [Bol, Grp 1 (Rep 4 4 digit), Lit (CHR ''-''), Grp 2 months, Eol]"
  \<comment> \<open>\<open>/^(\d{4})-(JAN|...|DEC)$/\<close>\<close>

definition re_mmmYyyy :: regex where
  "re_mmmYyyy = cat [Bol, Grp 1 months, Plus ws, Grp 2 (Rep 4 4 digit), Eol]"
  \<comment> \<open>\<open>/^(JAN|...|DEC)\s+(\d{4})$/\<close>\<close>

definition re_mmmYyyyNoSpace :: regex where
  "re_mmmYyyyNoSpace = cat [Bol, Grp 1 months, Grp 2 (Rep 4 4 digit), Eol]"
  \<comment> \<open>\<open>/^(JAN|...|DEC)(\d{4})$/\<close>\<close>

definition re_slash :: regex where
  "re_slash = cat [Bol, Grp 1 (Rep 1 2 digit), Lit (CHR ''/''), Grp 2 (Rep 1 2 digit),
                   Lit (CHR ''/''), Grp 3 (Rep 4 4 digit), Eol]"
  \<comment> \<open>\<open>/^(\d{1,2})\/(\d{1,2})\/(\d{4})$/\<close>\<close>

definition re_mmYyyy :: regex where
  "re_mmYyyy = cat [Bol, Grp 1 (Rep 1 2 digit), Lit (CHR ''/''), Grp 2 (Rep 4 4 digit), Eol]"
  \<comment> \<open>\<open>/^(\d{1,2})\/(\d{4})$/\<close>\<close>

definition re_yyyyMmSlash :: regex where
  "re_yyyyMmSlash = cat [Bol, Grp 1 (Rep 4 4 digit), Lit (CHR ''/''), Grp 2 (Rep 1 2 digit), Eol]"
  \<comment> \<open>\<open>/^(\d{4})\/(\d{1,2})$/\<close>\<close>

text \<open>
  \<open>normalizeExpiry\<close> of \<open>labelFormats.ts\<close>. \<open>if (m) return ...\<close> falls through to the
  next pattern when the month table has no entry.
\<close>

definition normalizeExpiry_a :: "string \<Rightarrow> string option" where
  "normalizeExpiry_a raw =
     (case re_exec re_yyyyMmm True raw of
        None \<Rightarrow> None
      | Some m \<Rightarrow>
          (case map_of mon (toUpperCase (grp m 2)) of
             None \<Rightarrow> None
           | Some mm \<Rightarrow> if mm = [] then None else Some (grp m 1 @ ''-'' @ mm)))"

definition normalizeExpiry_b :: "string \<Rightarrow> string option" where
  "normalizeExpiry_b raw =
     (case re_exec re_mmmYyyy True raw of
        None \<Rightarrow> None
      | Some m \<Rightarrow>
          (case map_of mon (toUpperCase (grp m 1)) of
             None \<Rightarrow> None
           | Some mm \<Rightarrow> if mm = [] then None else Some (grp m 2 @ ''-'' @ mm)))"

definition normalizeExpiry_c :: "string \<Rightarrow> string option" where
  "normalizeExpiry_c raw =
     (case re_exec re_mmmYyyyNoSpace True raw of
        None \<Rightarrow> None
      | Some m \<Rightarrow>
          (case map_of mon (toUpperCase (grp m 1)) of
             None \<Rightarrow> None
           | Some mm \<Rightarrow> if mm = [] then None else Some (grp m 2 @ ''-'' @ mm)))"

definition normalizeExpiry_labelFormats :: "string \<Rightarrow> string" where
  "normalizeExpiry_labelFormats raw =
     (case normalizeExpiry_a raw of
        Some r \<Rightarrow> r
      | None \<Rightarrow>
     (case normalizeExpiry_b raw of
        Some r \<Rightarrow> r
      | None \<Rightarrow>
     (case normalizeExpiry_c raw of
        Some r \<Rightarrow> r
      | None \<Rightarrow>
     (case re_exec re_slash False raw of
        Some m \<Rightarrow> slice 0 7 (grp m 3 @ ''-'' @ padStart2 (grp m 1) @ ''-'' @ padStart2 (grp m 2))
      | None \<Rightarrow>
     (case re_exec re_mmYyyy False raw of
        Some m \<Rightarrow> grp m 2 @ ''-'' @ padStart2 (grp m 1)
      | None \<Rightarrow>
     (case re_exec re_yyyyMmSlash False raw of
        Some m \<Rightarrow> grp m 1 @ ''-'' @ padStart2 (grp m 2)
      | None \<Rightarrow> raw))))))"

text \<open>\<open>!x\<close> and \<open>x ?? ''\<close> for an optional string.\<close>

definition falsy :: "string option \<Rightarrow> bool" where
  "falsy x = (case x of None \<Rightarrow> True | Some s \<Rightarrow> s = [])"

definition or_empty :: "string option \<Rightarrow> string" where
  "or_empty x = (case x of None \<Rightarrow> [] | Some s \<Rightarrow> s)"










definition re_sixDigit :: regex where
  "re_sixDigit = cat [WordB, Grp 1 (Rep 6 6 digit), WordB]"
  \<comment> \<open>\<open>/\b(\d{6})\b/\<close>\<close>

definition re_yyyyMmmWord :: regex where
  "re_yyyyMmmWord = cat [WordB, Grp 1 (cat [Rep 4 4 digit, Lit (CHR ''-''), months]), WordB]"
  \<comment> \<open>\<open>/\b(\d{4}-(?:JAN|...|DEC))\b/i\<close>\<close>































section \<open>Field registry (\<open>labelPatterns.ts\<close>)\<close>

datatype OutputKey = Key_batch_no | Key_lot_no | Key_expiry | Key_serial | Key_ref

text \<open>
  A field definition. Its \<open>anchorRegexes\<close> and \<open>valueRegexes\<close> are pattern texts handed to
  the capture SDK; the mapper reads only the name and the output keys.
\<close>

record ScanditFieldDefinition =
  scanditFieldName :: string
  optional :: bool
  outputKeys :: "OutputKey list"

definition SCANDIT_FIELD_DEFINITIONS :: "ScanditFieldDefinition list" where
  "SCANDIT_FIELD_DEFINITIONS =
    [\<lparr>scanditFieldName = ''Lot no'', optional = True, outputKeys = [Key_lot_no]\<rparr>,
     \<lparr>scanditFieldName = ''Expiry'', optional = True, outputKeys = [Key_expiry]\<rparr>,
     \<lparr>scanditFieldName = ''Product code'', optional = True,
        outputKeys = [Key_batch_no, Key_lot_no]\<rparr>,
     \<lparr>scanditFieldName = ''Batch no'', optional = True, outputKeys = [Key_batch_no]\<rparr>,
     \<lparr>scanditFieldName = ''Ref no'', optional = True, outputKeys = [Key_ref]\<rparr>,
     \<lparr>scanditFieldName = ''Batch/Lot (numeric)'', optional = True,
        outputKeys = [Key_batch_no, Key_lot_no]\<rparr>,
     \<lparr>scanditFieldName = ''Expiry (YYYY-MMM)'', optional = True, outputKeys = [Key_expiry]\<rparr>,
     \<lparr>scanditFieldName = ''Lot no (LOT prefix)'', optional = True, outputKeys = [Key_lot_no]\<rparr>,
     \<lparr>scanditFieldName = ''Expiry (EXP MMM YYYY)'', optional = True, outputKeys = [Key_expiry]\<rparr>,
     \<lparr>scanditFieldName = ''Expiry (EXP MM/YY)'', optional = True, outputKeys = [Key_expiry]\<rparr>,
     \<lparr>scanditFieldName = ''Lot no (LOT NUMBER)'', optional = True, outputKeys = [Key_lot_no]\<rparr>,
     \<lparr>scanditFieldName = ''Serial no'', optional = True, outputKeys = [Key_serial]\<rparr>,
     \<lparr>scanditFieldName = ''Expiry (EXPIRATION DATE)'', optional = True,
        outputKeys = [Key_expiry]\<rparr>]"

definition MONTH_NAME_TO_NUM :: "(string \<times> string) list" where
  "MONTH_NAME_TO_NUM =
     [(''JAN'', ''01''), (''FEB'', ''02''), (''MAR'', ''03''), (''APR'', ''04''),
      (''MAY'', ''05''), (''JUN'', ''06''), (''JUL'', ''07''), (''AUG'', ''08''),
      (''SEP'', ''09''), (''OCT'', ''10''), (''NOV'', ''11''), (''DEC'', ''12'')]"

definition re_mmYySlash :: regex where
  "re_mmYySlash = cat [Bol, Grp 1 (Rep 1 2 digit), Lit (CHR ''/''), Grp 2 (Rep 2 2 digit), Eol]"
  \<comment> \<open>\<open>/^(\d{1,2})\/(\d{2})$/\<close>\<close>

text \<open>\<open>num ? `${year}-${num}` : value\<close>\<close>

definition month_or :: "string \<Rightarrow> string \<Rightarrow> string \<Rightarrow> string" where
  "month_or year name value =
     (case map_of MONTH_NAME_TO_NUM name of
        None \<Rightarrow> value
      | Some num \<Rightarrow> if num = [] then value else year @ ''-'' @ num)"

text \<open>The two-digit year of \<open>MM/YY\<close>, pivot 50.\<close>

definition pivot_year :: "int option \<Rightarrow> int option" where
  "pivot_year yy =
     (if num_ge yy 0 \<and> num_le yy 99
      then (if num_ge yy 50 then map_option (\<lambda>y. 1900 + y) yy else map_option (\<lambda>y. 2000 + y) yy)
      else yy)"

definition normalizeExpiryForMapping :: "string \<Rightarrow> string" where
  "normalizeExpiryForMapping value =
     (let v = toUpperCase (trim value) in
      case re_exec re_yyyyMmm False v of
        Some m \<Rightarrow> month_or (grp m 1) (grp m 2) value
      | None \<Rightarrow>
     (case re_exec re_mmmYyyy False v of
        Some m \<Rightarrow> month_or (grp m 2) (grp m 1) value
      | None \<Rightarrow>
     (case re_exec re_mmmYyyyNoSpace False v of
        Some m \<Rightarrow> month_or (grp m 2) (grp m 1) value
      | None \<Rightarrow>
     (case re_exec re_yyyyMmSlash False v of
        Some m \<Rightarrow> grp m 1 @ ''-'' @ padStart2 (grp m 2)
      | None \<Rightarrow>
     (case re_exec re_mmYySlash False v of
        Some m \<Rightarrow>
          (let mm = padStart2 (grp m 1);
               yyyy = pivot_year (parseInt (grp m 2));
               monthNum = parseInt mm
           in if num_ge monthNum 1 \<and> num_le monthNum 12
              then string_of_num yyyy @ ''-'' @ mm
              else value)
      | None \<Rightarrow> value)))))"

section \<open>Structured-field mapper (\<open>scanditLabelToOcrFormat.ts\<close>)\<close>

text \<open>
  \<open>FIELD_TO_OUTPUT_KEYS\<close> is a plain object built by \<open>Object.fromEntries\<close>. Reading it at
  a field name that is a property of \<open>Object.prototype\<close> yields a function (or the
  prototype itself), on which the call \<open>outputKeys.includes(...)\<close> throws a \<open>TypeError\<close>.
\<close>

datatype js_error = TypeError

definition object_prototype_keys :: "string list" where
  "object_prototype_keys =
     [''constructor'', ''hasOwnProperty'', ''isPrototypeOf'', ''propertyIsEnumerable'',
      ''toLocaleString'', ''toString'', ''valueOf'', ''__proto__'', ''__defineGetter__'',
      ''__defineSetter__'', ''__lookupGetter__'', ''__lookupSetter__'']"

definition FIELD_TO_OUTPUT_KEYS :: "string \<Rightarrow> js_error + OutputKey list option" where
  "FIELD_TO_OUTPUT_KEYS name =
     (case map_of (rev (map (\<lambda>d. (scanditFieldName d, outputKeys d)) SCANDIT_FIELD_DEFINITIONS))
             name of
        Some ks \<Rightarrow> Inr (Some ks)
      | None \<Rightarrow> if name \<in> set object_prototype_keys then Inl TypeError else Inr None)"

record LabelJson = Gs1LabelResult +
  ref :: "string option"

record ScanditField =
  f_name :: string
  f_value :: string

definition re_sixDigits :: regex where
  "re_sixDigits = cat [Bol, Rep 6 6 digit, Eol]"
  \<comment> \<open>\<open>/^\d{6}$/\<close>\<close>

definition isLikelyYYMMDD :: "string \<Rightarrow> bool" where
  "isLikelyYYMMDD s =
     (if \<not> re_test re_sixDigits False s then False
      else
        let mm = parseInt (slice 2 4 s); dd = parseInt (slice 4 6 s)
        in num_ge mm 1 \<and> num_le mm 12 \<and> num_ge dd 1 \<and> num_le dd 31)"

definition re_L0T :: regex where
  "re_L0T = cat [Bol, Lit (CHR ''L''), Opt (Lit (CHR ''0'')), Lit (CHR ''T''), Eol]"
  \<comment> \<open>\<open>/^L0?T$/\<close>\<close>

definition re_EXP :: regex where
  "re_EXP = cat [Bol, lit ''EX'', Opt (Lit (CHR ''P'')), Eol]"
  \<comment> \<open>\<open>/^EXP?$/\<close>\<close>

definition re_E1P :: regex where
  "re_E1P = cat [Bol, lit ''E1P'', Eol]"
  \<comment> \<open>\<open>/^E1P$/\<close>\<close>

definition re_LAY0UT :: regex where
  "re_LAY0UT = cat [Bol, lit ''LAY'', Opt (Lit (CHR ''0'')), lit ''UT'', Eol]"
  \<comment> \<open>\<open>/^LAY0?UT$/\<close>\<close>

definition isProductCodeMisread :: "string \<Rightarrow> bool" where
  "isProductCodeMisread value =
     (let s = trim value in
      if length s \<le> 3 then True
      else
        let u = toUpperCase s in
        if re_test re_L0T False u \<or> re_test re_EXP False u \<or> re_test re_E1P False u
           \<or> u = ''LOT'' then True
        else if re_test re_LAY0UT False u \<or> u = ''LAYOUT'' then True
        else False)"

definition re_yyyyMm :: regex where
  "re_yyyyMm = cat [Bol, Grp 1 (Rep 4 4 digit), Lit (CHR ''-''), Grp 2 (Rep 1 2 digit),
                    Opt (Grp 3 (cat [Lit (CHR ''-''), Grp 4 (Rep 1 2 digit)])), Eol]"
  \<comment> \<open>\<open>/^(\d{4})-(\d{1,2})(-(\d{1,2}))?$/\<close>\<close>

definition re_mmDdYyyy :: regex where
  "re_mmDdYyyy = cat [Bol, Grp 1 (Rep 1 2 digit), Lit (CHR ''/''), Grp 2 (Rep 1 2 digit),
                      Lit (CHR ''/''), Grp 3 (Rep 4 4 digit), Eol]"
  \<comment> \<open>\<open>/^(\d{1,2})\/(\d{1,2})\/(\d{4})$/\<close>\<close>

definition re_ddMmYyyy :: regex where
  "re_ddMmYyyy = cat [Bol, Grp 1 (Rep 1 2 digit), Lit (CHR ''-''), Grp 2 (Rep 1 2 digit),
                      Lit (CHR ''-''), Grp 3 (Rep 4 4 digit), Eol]"
  \<comment> \<open>\<open>/^(\d{1,2})-(\d{1,2})-(\d{4})$/\<close>\<close>

text \<open>\<open>normalizeExpiry\<close> of \<open>scanditLabelToOcrFormat.ts\<close>.\<close>

definition normalizeExpiry_scandit :: "string \<Rightarrow> string" where
  "normalizeExpiry_scandit value =
     (let v = trim value; fromMmm = normalizeExpiryForMapping v in
      if fromMmm \<noteq> v then fromMmm
      else
     (case re_exec re_yyyyMm False v of
        Some m \<Rightarrow> grp m 1 @ ''-'' @ padStart2 (grp m 2)
      | None \<Rightarrow>
     (case re_exec re_mmDdYyyy False v of
        Some m \<Rightarrow> grp m 3 @ ''-'' @ padStart2 (grp m 1)
      | None \<Rightarrow>
     (case re_exec re_ddMmYyyy False v of
        Some m \<Rightarrow> grp m 3 @ ''-'' @ padStart2 (grp m 2)
      | None \<Rightarrow>
     (case re_exec re_mmYyyy False v of
        Some m \<Rightarrow> grp m 2 @ ''-'' @ padStart2 (grp m 1)
      | None \<Rightarrow> v)))))"

text \<open>\<open>(?:No\.?|Number|#)?\<close>\<close>

definition re_noNumberHash :: regex where
  "re_noNumberHash =
     Opt (alt [cat [lit ''No'', Opt (Lit (CHR ''.''))], lit ''Number'', Lit (CHR ''#'')])"

definition re_raw_lotMatch :: regex where
  "re_raw_lotMatch =
     cat [alt [cat [lit ''Lot'', Star ws, re_noNumberHash, Star ws, Opt (Lit (CHR '':''))],
               cat [lit ''LOT'', Star ws, lit ''NO'', Opt (Lit (CHR ''.'')), Star ws,
                    Opt (Lit (CHR '':''))],
               cat [lit ''LOT'', Star ws, lit ''NUMBER'', Star ws, Opt (Lit (CHR '':''))],
               cat [lit ''LOT'', Plus ws]],
          Star ws, Grp 1 (Rep 4 15 alnum)]"
  \<comment> \<open>\<open>/(?:Lot\s*(?:No\.?|Number|#)?\s*:?|LOT\s*NO\.?\s*:?|LOT\s*NUMBER\s*:?|LOT\s+)\s*([0-9A-Za-z]{4,15})/i\<close>\<close>

definition re_raw_dateForms :: regex where
  "re_raw_dateForms =
     alt [cat [Rep 4 4 digit, Lit (CHR ''-''), Rep 2 2 digit,
               Opt (Grp 2 (cat [Lit (CHR ''-''), Rep 2 2 digit]))],
          cat [Rep 4 4 digit, Lit (CHR ''/''), Rep 1 2 digit,
               Opt (cat [Lit (CHR ''/''), Rep 2 4 digit])],
          cat [Rep 4 4 digit, Lit (CHR ''-''), months],
          cat [months, Plus ws, Rep 4 4 digit],
          cat [months, Rep 4 4 digit],
          cat [Rep 1 2 digit, Lit (CHR ''/''), Rep 1 2 digit, Lit (CHR ''/''), Rep 4 4 digit],
          cat [Rep 1 2 digit, Lit (CHR ''-''), Rep 1 2 digit, Lit (CHR ''-''), Rep 4 4 digit]]"

definition re_raw_expiryMatch :: regex where
  "re_raw_expiryMatch =
     cat [alt [cat [lit ''Exp'', Opt (Lit (CHR ''.''))],
               lit ''Expiry'',
               cat [lit ''Expiration'', Opt (cat [Star ws, lit ''DATE''])],
               cat [lit ''Use'', Star ws, Opt (Cls ''- ''), lit ''By''],
               cat [lit ''EXP'', Plus ws]],
          Star ws, Opt (Lit (CHR '':'')), Star ws, Grp 1 re_raw_dateForms]"
  \<comment> \<open>\<open>/(?:Exp\.?|Expiry|Expiration(?:\s*DATE)?|Use\s*[- ]?By|EXP\s+)\s*:?\s*(\d{4}-\d{2}(-\d{2})?|\d{4}\/\d{1,2}(?:\/\d{2,4})?|\d{4}-(?:JAN|...|DEC)|(?:JAN|...|DEC)\s+\d{4}|(?:JAN|...|DEC)\d{4}|\d{1,2}\/\d{1,2}\/\d{4}|\d{1,2}-\d{1,2}-\d{4})/i\<close>\<close>

definition re_raw_expMmmYyyy :: regex where
  "re_raw_expMmmYyyy =
     cat [WordB, Opt (Grp 1 (cat [lit ''EXP'', Plus ws])), Grp 2 months, Plus ws,
          Grp 3 (Rep 4 4 digit), WordB]"
  \<comment> \<open>\<open>/\b(EXP\s+)?(JAN|...|DEC)\s+(\d{4})\b/i\<close>\<close>

definition re_raw_expMmmYyyyNoSpace :: regex where
  "re_raw_expMmmYyyyNoSpace =
     cat [WordB, lit ''EXP'', Plus ws, Grp 1 months, Grp 2 (Rep 4 4 digit), WordB]"
  \<comment> \<open>\<open>/\bEXP\s+(JAN|...|DEC)(\d{4})\b/i\<close>\<close>

definition re_raw_expMmYy :: regex where
  "re_raw_expMmYy =
     cat [WordB, lit ''EXP'', Star ws,
          Grp 1 (cat [Rep 1 2 digit, Lit (CHR ''/''), Rep 2 2 digit]), WordB]"
  \<comment> \<open>\<open>/\bEXP\s*(\d{1,2}\/\d{2})\b/i\<close>\<close>

definition parse_lot_from_raw :: "string \<Rightarrow> string" where
  "parse_lot_from_raw raw =
     (let lot_no = (case re_exec re_raw_lotMatch True raw of
                      Some m \<Rightarrow> trim (grp m 1) | None \<Rightarrow> [])
      in if lot_no = []
         then (case re_exec re_sixDigit False raw of Some m \<Rightarrow> grp m 1 | None \<Rightarrow> [])
         else lot_no)"

definition parse_expiry_from_raw :: "string \<Rightarrow> string" where
  "parse_expiry_from_raw raw =
     (let e1 = (case re_exec re_raw_expiryMatch True raw of
                  Some m \<Rightarrow> normalizeExpiry_scandit (grp m 1) | None \<Rightarrow> []);
          e2 = (if e1 = []
                then (case re_exec re_yyyyMmmWord True raw of
                        Some m \<Rightarrow> normalizeExpiry_scandit (grp m 1) | None \<Rightarrow> e1)
                else e1);
          e3 = (if e2 = []
                then (case re_exec re_raw_expMmmYyyy True raw of
                        Some m \<Rightarrow> normalizeExpiry_scandit (grp m 2 @ '' '' @ grp m 3)
                      | None \<Rightarrow> e2)
                else e2);
          e4 = (if e3 = []
                then (case re_exec re_raw_expMmmYyyyNoSpace True raw of
                        Some m \<Rightarrow> normalizeExpiry_scandit (grp m 1 @ grp m 2)
                      | None \<Rightarrow> e3)
                else e3)
      in if e4 = []
         then (case re_exec re_raw_expMmYy True raw of
                 Some m \<Rightarrow> normalizeExpiry_scandit (grp m 1) | None \<Rightarrow> e4)
         else e4)"

text \<open>\<open>parseLotAndExpiryFromRaw\<close>: the pair \<open>(lot_no, expiry)\<close>.\<close>

definition parseLotAndExpiryFromRaw :: "string \<Rightarrow> string \<times> string" where
  "parseLotAndExpiryFromRaw raw = (parse_lot_from_raw raw, parse_expiry_from_raw raw)"

definition SERIAL_FROM_RAW_REGEX :: regex where
  "SERIAL_FROM_RAW_REGEX =
     cat [alt [cat [lit ''Serial'', Star ws, re_noNumberHash, Star ws, Opt (Lit (CHR '':''))],
               cat [lit ''SN'', Star ws, Opt (Lit (CHR '':''))],
               cat [lit ''S/N'', Star ws, Opt (Lit (CHR '':''))]],
          Star ws, Grp 1 (Rep 8 20 alnum)]"
  \<comment> \<open>\<open>(?:Serial\s*(?:No\.?|Number|#)?\s*:?|SN\s*:?|S/N\s*:?)\s*([A-Za-z0-9]{8,20})\<close>, flag \<open>i\<close>\<close>

definition parseSerialFromRaw :: "string \<Rightarrow> string" where
  "parseSerialFromRaw raw =
     (case re_exec SERIAL_FROM_RAW_REGEX True raw of Some m \<Rightarrow> trim (grp m 1) | None \<Rightarrow> [])"

text \<open>The state of the loop over the fields.\<close>

record scan_state =
  labelJson :: LabelJson
  lines :: "string list"
  barcodeValues :: "string list"

definition empty_label :: LabelJson where
  "empty_label = \<lparr>batch_no = [], lot_no = [], expiry = [], upc_gtin = None, serial = None,
                   ref = None\<rparr>"

definition init_state :: scan_state where
  "init_state = \<lparr>labelJson = empty_label, lines = [], barcodeValues = []\<rparr>"

text \<open>The body of \<open>for (const key of outputKeys)\<close>.\<close>

definition set_key :: "string \<Rightarrow> LabelJson \<Rightarrow> OutputKey \<Rightarrow> LabelJson" where
  "set_key valueToSet lj key =
     (case key of
        Key_batch_no \<Rightarrow> lj\<lparr>batch_no := valueToSet\<rparr>
      | Key_lot_no \<Rightarrow> lj\<lparr>lot_no := valueToSet\<rparr>
      | Key_expiry \<Rightarrow> lj\<lparr>expiry := valueToSet\<rparr>
      | Key_serial \<Rightarrow> lj\<lparr>serial := Some valueToSet\<rparr>
      | Key_ref \<Rightarrow> lj\<lparr>ref := Some valueToSet\<rparr>)"

text \<open>The body of \<open>for (const f of fields)\<close>; \<open>Inl\<close> is the exception thrown.\<close>

definition field_step :: "scan_state \<Rightarrow> ScanditField \<Rightarrow> js_error + scan_state" where
  "field_step st f =
     (let v = trim (f_value f);
          isMisread = (f_name f = ''Product code'' \<and> isProductCodeMisread v);
          st1 = (if \<not> isMisread
                 then st\<lparr>lines := lines st @ [f_name f @ '': '' @ f_value f]\<rparr>
                 else st)
      in if f_name f = ''Barcode''
         then Inr (st1\<lparr>barcodeValues := barcodeValues st1 @ [v]\<rparr>)
         else
           (case FIELD_TO_OUTPUT_KEYS (f_name f) of
              Inl e \<Rightarrow> Inl e
            | Inr (Some keys) \<Rightarrow>
                (let valueToSet = (if Key_expiry \<in> set keys then normalizeExpiry_scandit v else v)
                 in if f_name f = ''Product code'' \<and> isProductCodeMisread v then Inr st1
                    else if f_name f = ''Batch/Lot (numeric)'' \<and> isLikelyYYMMDD v
                      then Inr (st1\<lparr>labelJson := (labelJson st1)\<lparr>expiry := v\<rparr>\<rparr>)
                    else Inr (st1\<lparr>labelJson := foldl (set_key valueToSet) (labelJson st1) keys\<rparr>))
            | Inr None \<Rightarrow>
                if f_name f = ''Expiry Date''
                then Inr (st1\<lparr>labelJson := (labelJson st1)\<lparr>expiry := normalizeExpiry_scandit v\<rparr>\<rparr>)
                else Inr st1))"

fun run_fields :: "scan_state \<Rightarrow> ScanditField list \<Rightarrow> js_error + scan_state" where
  "run_fields st [] = Inr st"
| "run_fields st (f # fs) =
     (case field_step st f of Inl e \<Rightarrow> Inl e | Inr st' \<Rightarrow> run_fields st' fs)"

definition re_gtinAi :: regex where
  "re_gtinAi = cat [lit ''01'', Rep 14 14 digit]"
  \<comment> \<open>\<open>/01\d{14}/\<close>\<close>

definition re_shortBarcode :: regex where
  "re_shortBarcode = cat [Bol, Rep 5 7 digit, Eol]"
  \<comment> \<open>\<open>/^\d{5,7}$/\<close>\<close>

definition re_gtinFromAi :: regex where
  "re_gtinFromAi = cat [Bol, Opt (Lit (CHR ''('')), lit ''01'', Opt (Lit (CHR '')'')), Star ws,
                        Grp 1 (Rep 13 14 digit), Eol]"
  \<comment> \<open>\<open>/^\(?01\)?\s*(\d{13,14})$/\<close>\<close>

definition re_plainDigits :: regex where
  "re_plainDigits = cat [Bol, Rep 6 14 digit, Eol]"
  \<comment> \<open>\<open>/^\d{6,14}$/\<close>\<close>

definition find_longGs1 :: "string list \<Rightarrow> string option" where
  "find_longGs1 bs =
     find (\<lambda>val. 20 \<le> length (strip_ws val) \<and> re_test re_gtinAi False (strip_ws val)) bs"

text \<open>\<open>bs.reduce((a, b) => (a.length >= b.length ? a : b))\<close>\<close>

definition longest_barcode :: "string list \<Rightarrow> string" where
  "longest_barcode bs =
     (case bs of [] \<Rightarrow> []
      | b # rest \<Rightarrow> foldl (\<lambda>a b. if length b \<le> length a then a else b) b rest)"

definition pick_barcode :: "string list \<Rightarrow> string" where
  "pick_barcode bs = (case find_longGs1 bs of Some b \<Rightarrow> b | None \<Rightarrow> longest_barcode bs)"

definition find_shortBarcode :: "string list \<Rightarrow> string option" where
  "find_shortBarcode bs = find (\<lambda>val. re_test re_shortBarcode False (strip_ws val)) bs"

definition adopt_short_ref :: "string list \<Rightarrow> LabelJson \<Rightarrow> LabelJson" where
  "adopt_short_ref bs lj =
     (if falsy (ref lj) \<and> \<not> falsy (find_shortBarcode bs) \<and> \<not> falsy (find_longGs1 bs)
      then lj\<lparr>ref := Some (trim (or_empty (find_shortBarcode bs)))\<rparr>
      else lj)"

definition merge_gs1 :: "Gs1LabelResult \<Rightarrow> LabelJson \<Rightarrow> LabelJson" where
  "merge_gs1 gs1 lj =
     (let lj1 = (if batch_no gs1 \<noteq> [] then lj\<lparr>batch_no := batch_no gs1\<rparr> else lj);
          lj2 = (if lot_no gs1 \<noteq> [] then lj1\<lparr>lot_no := lot_no gs1\<rparr> else lj1);
          lj3 = (if expiry gs1 \<noteq> [] then lj2\<lparr>expiry := expiry gs1\<rparr> else lj2);
          lj4 = (if \<not> falsy (upc_gtin gs1) then lj3\<lparr>upc_gtin := upc_gtin gs1\<rparr> else lj3)
      in if \<not> falsy (serial gs1) then lj4\<lparr>serial := serial gs1\<rparr> else lj4)"

definition decode_barcode ::
  "(string \<Rightarrow> gs1_decoded) \<Rightarrow> string \<Rightarrow> LabelJson \<Rightarrow> LabelJson" where
  "decode_barcode decode barcodeValue lj =
     (if 14 \<le> length barcodeValue
      then (case parseGs1ToLabelJson decode barcodeValue of
              Some gs1 \<Rightarrow> merge_gs1 gs1 lj
            | None \<Rightarrow> lj)
      else lj)"

definition adopt_barcode_gtin :: "string \<Rightarrow> LabelJson \<Rightarrow> LabelJson" where
  "adopt_barcode_gtin barcodeValue lj =
     (if falsy (upc_gtin lj) \<and> barcodeValue \<noteq> []
      then (case re_exec re_gtinFromAi False (trim barcodeValue) of
              Some m \<Rightarrow> lj\<lparr>upc_gtin := Some (grp m 1)\<rparr>
            | None \<Rightarrow>
                (let digits = strip_ws barcodeValue
                 in if re_test re_plainDigits False digits then lj\<lparr>upc_gtin := Some digits\<rparr>
                    else lj))
      else lj)"

definition build_raw :: "string list \<Rightarrow> LabelJson \<Rightarrow> string" where
  "build_raw ls lj =
     (let raw = join_lines ls
      in if \<not> falsy (serial lj)
         then (if raw \<noteq> [] then raw @ [CHR 0x0A] @ ''Serial: '' @ or_empty (serial lj)
               else ''Serial: '' @ or_empty (serial lj))
         else raw)"

definition raw_fallback :: "string \<Rightarrow> LabelJson \<Rightarrow> LabelJson" where
  "raw_fallback raw lj =
     (if lot_no lj = [] \<or> expiry lj = []
      then
        (let parsed = parseLotAndExpiryFromRaw raw;
             lj1 = (if lot_no lj = [] \<and> fst parsed \<noteq> [] then lj\<lparr>lot_no := fst parsed\<rparr> else lj)
         in if expiry lj1 = [] \<and> snd parsed \<noteq> [] then lj1\<lparr>expiry := snd parsed\<rparr> else lj1)
      else lj)"

definition serial_fallback :: "string \<Rightarrow> LabelJson \<Rightarrow> LabelJson" where
  "serial_fallback raw lj =
     (if falsy (serial lj)
      then (let serialFromRaw = parseSerialFromRaw raw
            in if serialFromRaw \<noteq> [] then lj\<lparr>serial := Some serialFromRaw\<rparr> else lj)
      else lj)"

text \<open>
  The last step: a batch or lot number equal to the product identifier, or to the
  reference, is cleared.
\<close>

definition clear_if_equal :: "string option \<Rightarrow> LabelJson \<Rightarrow> LabelJson" where
  "clear_if_equal x lj =
     (if \<not> falsy x
      then (let lj1 = (if batch_no lj = or_empty x then lj\<lparr>batch_no := []\<rparr> else lj)
            in if lot_no lj1 = or_empty x then lj1\<lparr>lot_no := []\<rparr> else lj1)
      else lj)"

definition reconcile :: "LabelJson \<Rightarrow> LabelJson" where
  "reconcile lj = (let lj1 = clear_if_equal (upc_gtin lj) lj in clear_if_equal (ref lj1) lj1)"

text \<open>Everything after the loop over the fields.\<close>

definition finish :: "(string \<Rightarrow> gs1_decoded) \<Rightarrow> scan_state \<Rightarrow> LabelJson \<times> string" where
  "finish decode st =
     (let barcodeValue = pick_barcode (barcodeValues st);
          lj1 = adopt_short_ref (barcodeValues st) (labelJson st);
          lj2 = decode_barcode decode barcodeValue lj1;
          lj3 = adopt_barcode_gtin barcodeValue lj2;
          raw = build_raw (lines st) lj3;
          lj4 = raw_fallback raw lj3;
          lj5 = serial_fallback raw lj4
      in (reconcile lj5, raw))"

definition scanditFieldsToLabelJson ::
  "(string \<Rightarrow> gs1_decoded) \<Rightarrow> ScanditField list \<Rightarrow> js_error + LabelJson \<times> string" where
  "scanditFieldsToLabelJson decode flds =
     (case run_fields init_state flds of
        Inl e \<Rightarrow> Inl e
      | Inr st \<Rightarrow> Inr (finish decode st))"

section \<open>Notions of the specification\<close>

text \<open>The canonical forms of an expiry: \<open>YYYY-MM\<close> and \<open>YYYY-MM-DD\<close>.\<close>

definition year_month :: "string \<Rightarrow> bool" where
  "year_month s =
     (length s = 7 \<and> list_all is_digit (take 4 s) \<and> s ! 4 = CHR ''-''
      \<and> list_all is_digit (drop 5 s))"

definition year_month_day :: "string \<Rightarrow> bool" where
  "year_month_day s =
     (length s = 10 \<and> year_month (take 7 s) \<and> s ! 7 = CHR ''-'' \<and> list_all is_digit (drop 8 s))"

definition canonical_expiry :: "string \<Rightarrow> bool" where
  "canonical_expiry s = (year_month s \<or> year_month_day s)"

text \<open>
  The uniqueness invariant as the specification words it: no two of the product
  identifier, the reference, the batch number and the lot number hold equal non-empty
  values.
\<close>

definition unique_roles :: "LabelJson \<Rightarrow> bool" where
  "unique_roles lj =
     distinct (filter (\<lambda>s. s \<noteq> [])
       [or_empty (upc_gtin lj), or_empty (ref lj), batch_no lj, lot_no lj])"

text \<open>A six-digit value that reads as \<open>YYMMDD\<close>: month 1 to 12, day 1 to 31.\<close>

definition valid_yymmdd :: "string \<Rightarrow> bool" where
  "valid_yymmdd s =
     (length s = 6 \<and> list_all is_digit s
      \<and> 1 \<le> nat_of_digits (slice 2 4 s) \<and> nat_of_digits (slice 2 4 s) \<le> 12
      \<and> 1 \<le> nat_of_digits (slice 4 6 s) \<and> nat_of_digits (slice 4 6 s) \<le> 31)"

text \<open>
  A field found in a barcode payload: by the library (one of its four elements renders
  to a non-empty text), or by position (one of the patterns of the positional decoder
  occurs in the text).
\<close>

definition primary_found :: "gs1_decoded \<Rightarrow> bool" where
  "primary_found res =
     (case res of
        DecodeData data \<Rightarrow>
          list_ex (\<lambda>key. elToStr (map_of data key) \<noteq> []) [''batch'', ''expDate'', ''gtin'', ''serial'']
      | _ \<Rightarrow> False)"

definition positional_found :: "string \<Rightarrow> bool" where
  "positional_found t =
     list_ex (\<lambda>r. re_test r False t)
       [re_gtinMatch, re_serialMatch, re_expMatch, re_batchBeforeSerial, re_batchToEnd]"

text \<open>A library call that rejects its input.\<close>

definition decode_throws :: "string \<Rightarrow> gs1_decoded" where
  "decode_throws s = DecodeThrows"

text \<open>The concatenated payload of the specification.\<close>

definition concatenated_example :: string where
  "concatenated_example = ''0100350111561014211010454151481217270531107981055''"


section \<open>Facts about the matcher\<close>

lemma in_eat:
  "st' \<in> set (eat P st) \<longleftrightarrow>
     (\<exists>c cs. fst (snd st) = c # cs \<and> P c \<and> st' = (Some c, cs, snd (snd st)))"
  by (cases st) (auto simp: eat_def split: list.splits)

lemma rmatch_Cls_eq: "rmatch (Cls cs) ci = eat (cls_ok ci cs)"
  by (rule ext) simp

lemma rmatch_Lit_eq: "rmatch (Lit c) ci = eat (lit_ok ci c)"
  by (rule ext) simp

text \<open>A bounded repetition of a character class consumes that many members of the class.\<close>

lemma in_rep_greedy_eat:
  "st' \<in> set (rep_greedy (eat P) lo hi st) \<Longrightarrow>
     \<exists>n q. lo \<le> n \<and> n \<le> hi \<and> n \<le> length (fst (snd st)) \<and> list_all P (take n (fst (snd st)))
        \<and> st' = (q, drop n (fst (snd st)), snd (snd st))"
proof (induction hi arbitrary: lo st)
  case 0
  then show ?case
    by (intro exI [of _ 0] exI [of _ "fst st"]) (auto split: if_splits)
next
  case (Suc hi)
  from Suc.prems consider
      (more) c cs where "fst (snd st) = c # cs" "P c"
        "st' \<in> set (rep_greedy (eat P) (lo - 1) hi (Some c, cs, snd (snd st)))"
    | (stop) "lo = 0" "st' = st"
    by (auto simp: in_eat split: if_splits)
  then show ?case
  proof cases
    case more
    from Suc.IH [OF more(3)] obtain n q where
      "lo - 1 \<le> n" "n \<le> hi" "n \<le> length cs" "list_all P (take n cs)"
      "st' = (q, drop n cs, snd (snd st))"
      by auto
    with more(1,2) show ?thesis
      by (intro exI [of _ "Suc n"] exI [of _ q]) auto
  next
    case stop
    then show ?thesis by (intro exI [of _ 0] exI [of _ "fst st"]) auto
  qed
qed

lemma in_star_greedy_eat:
  "st' \<in> set (star_greedy (eat P) fuel st) \<Longrightarrow>
     \<exists>n q. n \<le> length (fst (snd st)) \<and> list_all P (take n (fst (snd st)))
        \<and> st' = (q, drop n (fst (snd st)), snd (snd st))"
proof (induction fuel arbitrary: st)
  case 0
  then show ?case by (intro exI [of _ 0] exI [of _ "fst st"]) auto
next
  case (Suc fuel)
  from Suc.prems consider
      (more) c cs where "fst (snd st) = c # cs" "P c"
        "st' \<in> set (star_greedy (eat P) fuel (Some c, cs, snd (snd st)))"
    | (stop) "st' = st"
    by (auto simp: in_eat)
  then show ?case
  proof cases
    case more
    from Suc.IH [OF more(3)] obtain n q where
      "n \<le> length cs" "list_all P (take n cs)" "st' = (q, drop n cs, snd (snd st))"
      by auto
    with more(1,2) show ?thesis
      by (intro exI [of _ "Suc n"] exI [of _ q]) auto
  next
    case stop
    then show ?thesis by (intro exI [of _ 0] exI [of _ "fst st"]) auto
  qed
qed

lemma in_star_lazy_eat:
  "st' \<in> set (star_lazy (eat P) fuel st) \<Longrightarrow>
     \<exists>n q. n \<le> length (fst (snd st)) \<and> list_all P (take n (fst (snd st)))
        \<and> st' = (q, drop n (fst (snd st)), snd (snd st))"
proof (induction fuel arbitrary: st)
  case 0
  then show ?case by (intro exI [of _ 0] exI [of _ "fst st"]) auto
next
  case (Suc fuel)
  from Suc.prems consider
      (more) c cs where "fst (snd st) = c # cs" "P c"
        "st' \<in> set (star_lazy (eat P) fuel (Some c, cs, snd (snd st)))"
    | (stop) "st' = st"
    by (auto simp: in_eat)
  then show ?case
  proof cases
    case more
    from Suc.IH [OF more(3)] obtain n q where
      "n \<le> length cs" "list_all P (take n cs)" "st' = (q, drop n cs, snd (snd st))"
      by auto
    with more(1,2) show ?thesis
      by (intro exI [of _ "Suc n"] exI [of _ q]) auto
  next
    case stop
    then show ?thesis by (intro exI [of _ 0] exI [of _ "fst st"]) auto
  qed
qed

text \<open>
  A successful search splits the input into the text before the match and the rest,
  and its match object is one of the matches of the pattern at that position.
\<close>

lemma search_sound:
  "search r ci p s = Some mt \<Longrightarrow>
     \<exists>pre q rest. s = pre @ rest \<and> whole mt = take (length rest - length (after mt)) rest
        \<and> (before mt, after mt, caps mt) \<in> set (rmatch r ci (q, rest, []))"
proof (induction s arbitrary: p)
  case Nil
  then obtain p' s' k sts where r: "rmatch r ci (p, [], []) = (p', s', k) # sts"
    and mt: "mt = \<lparr>whole = [], caps = k, before = p', after = s'\<rparr>"
    by (auto split: list.splits)
  have "(before mt, after mt, caps mt) \<in> set (rmatch r ci (p, [], []))"
    using r mt by simp
  then show ?case
    using mt by (intro exI [of _ "[]"] exI [of _ p]) auto
next
  case (Cons c cs)
  show ?case
  proof (cases "rmatch r ci (p, c # cs, [])")
    case Nil
    with Cons.prems have "search r ci (Some c) cs = Some mt" by simp
    from Cons.IH [OF this] obtain pre q rest where
      "cs = pre @ rest" "whole mt = take (length rest - length (after mt)) rest"
      "(before mt, after mt, caps mt) \<in> set (rmatch r ci (q, rest, []))" by blast
    then show ?thesis
      by (intro exI [of _ "c # pre"] exI [of _ q] exI [of _ rest]) auto
  next
    case (Cons st sts)
    obtain p' s' k where st: "st = (p', s', k)" by (cases st) auto
    with Cons Cons.prems have
      "mt = \<lparr>whole = take (length (c # cs) - length s') (c # cs), caps = k,
             before = p', after = s'\<rparr>"
      by simp
    with Cons st show ?thesis
      by (intro exI [of _ "[]"] exI [of _ p] exI [of _ "c # cs"]) auto
  qed
qed

lemma re_exec_sound:
  "re_exec r ci s = Some mt \<Longrightarrow>
     \<exists>pre q rest. s = pre @ rest \<and> whole mt = take (length rest - length (after mt)) rest
        \<and> (before mt, after mt, caps mt) \<in> set (rmatch r ci (q, rest, []))"
  unfolding re_exec_def by (rule search_sound)

text \<open>A pattern that starts with \<open>^\<close> matches at the start of the input or not at all.\<close>

lemma search_Bol_Some: "search (Seq Bol r) ci (Some c) s = None"
  by (induction s arbitrary: c) auto

lemma re_exec_Bol:
  "re_exec (Seq Bol r) ci s =
     (case rmatch r ci (None, s, []) of
        [] \<Rightarrow> None
      | (p', s', k) # _ \<Rightarrow>
          Some \<lparr>whole = take (length s - length s') s, caps = k, before = p', after = s'\<rparr>)"
  by (cases s) (auto simp: re_exec_def search_Bol_Some split: list.splits)

lemma cls_ok_digit: "cls_ok False digit_chars = is_digit"
  by (rule ext) (simp add: cls_ok_def is_digit_def)

lemma cls_ok_alnum: "cls_ok False alnum_chars = is_alnum"
  by (rule ext) (simp add: cls_ok_def is_alnum_def)

lemma lit_ok_False [simp]: "lit_ok False c d \<longleftrightarrow> d = c"
  by (simp add: lit_ok_def)

lemma rep_cls_split:
  assumes "st' \<in> set (rep_greedy (eat P) lo hi st)"
  shows "\<exists>u v q. fst (snd st) = u @ v \<and> lo \<le> length u \<and> length u \<le> hi \<and> list_all P u
           \<and> st' = (q, v, snd (snd st))"
proof -
  from in_rep_greedy_eat [OF assms] obtain n q where
    n: "lo \<le> n" "n \<le> hi" "n \<le> length (fst (snd st))" "list_all P (take n (fst (snd st)))"
    "st' = (q, drop n (fst (snd st)), snd (snd st))" by blast
  show ?thesis
    using n
    by (intro exI [of _ "take n (fst (snd st))"] exI [of _ "drop n (fst (snd st))"] exI [of _ q])
       auto
qed

lemma star_greedy_cls_split:
  assumes "st' \<in> set (star_greedy (eat P) fuel st)"
  shows "\<exists>u v q. fst (snd st) = u @ v \<and> list_all P u \<and> st' = (q, v, snd (snd st))"
proof -
  from in_star_greedy_eat [OF assms] obtain n q where
    n: "n \<le> length (fst (snd st))" "list_all P (take n (fst (snd st)))"
    "st' = (q, drop n (fst (snd st)), snd (snd st))" by blast
  show ?thesis
    using n
    by (intro exI [of _ "take n (fst (snd st))"] exI [of _ "drop n (fst (snd st))"] exI [of _ q])
       auto
qed

lemma star_lazy_cls_split:
  assumes "st' \<in> set (star_lazy (eat P) fuel st)"
  shows "\<exists>u v q. fst (snd st) = u @ v \<and> list_all P u \<and> st' = (q, v, snd (snd st))"
proof -
  from in_star_lazy_eat [OF assms] obtain n q where
    n: "n \<le> length (fst (snd st))" "list_all P (take n (fst (snd st)))"
    "st' = (q, drop n (fst (snd st)), snd (snd st))" by blast
  show ?thesis
    using n
    by (intro exI [of _ "take n (fst (snd st))"] exI [of _ "drop n (fst (snd st))"] exI [of _ q])
       auto
qed

lemmas rx_simps = rmatch_Cls_eq rmatch_Lit_eq in_eat set_cap_def grp_def lit_def
lemmas rx_dests = rep_cls_split star_greedy_cls_split star_lazy_cls_split

section \<open>The GS1 decoder\<close>

lemma gtinMatch_group:
  assumes "re_exec re_gtinMatch False t = Some m"
  shows "length (grp m 1) = 14 \<and> list_all is_digit (grp m 1)"
proof -
  from re_exec_sound [OF assms] obtain pre q rest where
    "(before m, after m, caps m) \<in> set (rmatch re_gtinMatch False (q, rest, []))"
    by blast
  then show ?thesis
    by (auto simp: re_gtinMatch_def digit_def cls_ok_digit rx_simps dest!: rx_dests)
qed

lemma expMatch_group:
  assumes "re_exec re_expMatch False t = Some m"
  shows "length (grp m 1) = 6 \<and> list_all is_digit (grp m 1)"
proof -
  from re_exec_sound [OF assms] obtain pre q rest where
    "(before m, after m, caps m) \<in> set (rmatch re_expMatch False (q, rest, []))"
    by blast
  then show ?thesis
    by (auto simp: re_expMatch_def digit_def cls_ok_digit rx_simps dest!: rx_dests)
qed

lemma serialMatch_group:
  assumes "re_exec re_serialMatch False t = Some m"
  shows "grp m 1 \<noteq> []"
proof -
  from re_exec_sound [OF assms] obtain pre q rest where
    "(before m, after m, caps m) \<in> set (rmatch re_serialMatch False (q, rest, []))"
    by blast
  then show ?thesis
    by (auto simp: re_serialMatch_def alnum_def rx_simps dest!: rx_dests)
qed

lemma batchBeforeSerial_group:
  assumes "re_exec re_batchBeforeSerial False t = Some m"
  shows "\<exists>pre d post. t = pre @ ''17'' @ d @ ''10'' @ grp m 1 @ ''21'' @ post
           \<and> length d = 6 \<and> list_all is_digit d
           \<and> grp m 1 \<noteq> [] \<and> list_all is_alnum (grp m 1)"
proof -
  from re_exec_sound [OF assms] obtain pre q rest where t: "t = pre @ rest" and
    "(before m, after m, caps m) \<in> set (rmatch re_batchBeforeSerial False (q, rest, []))"
    by blast
  then show ?thesis
    apply (clarsimp simp: re_batchBeforeSerial_def digit_def alnum_def cls_ok_digit
             cls_ok_alnum rx_simps dest!: rx_dests)
    apply (intro exI conjI)
       apply (rule refl)
      apply simp_all
    done
qed

lemma batchToEnd_group:
  assumes "re_exec re_batchToEnd False t = Some m"
  shows "\<exists>pre d post. t = pre @ ''17'' @ d @ ''10'' @ grp m 1 @ post
           \<and> length d = 6 \<and> list_all is_digit d
           \<and> grp m 1 \<noteq> [] \<and> list_all is_alnum (grp m 1)"
proof -
  from re_exec_sound [OF assms] obtain pre q rest where t: "t = pre @ rest" and
    "(before m, after m, caps m) \<in> set (rmatch re_batchToEnd False (q, rest, []))"
    by blast
  then show ?thesis
    apply (clarsimp simp: re_batchToEnd_def digit_def alnum_def cls_ok_digit
             cls_ok_alnum rx_simps dest!: rx_dests)
    apply (intro exI conjI)
       apply (rule refl)
      apply simp_all
    done
qed

lemma yymmdd_to_iso_nonempty: "yymmdd_to_iso d \<noteq> []"
  by (simp add: yymmdd_to_iso_def Let_def)

lemma primary_decode_None_iff: "primary_decode res = None \<longleftrightarrow> \<not> primary_found res"
  by (cases res)
     (auto simp: primary_decode_def primary_found_def Let_def slice_def elToStr_def)

lemma parseConcatenatedGs1_None_iff:
  "parseConcatenatedGs1 s = None \<longleftrightarrow>
     length (strip_ws s) < 20 \<or> \<not> positional_found (strip_ws s)"
proof (cases "length (strip_ws s) < 20")
  case True
  then show ?thesis by (simp add: parseConcatenatedGs1_def Let_def)
next
  case False
  then show ?thesis
    by (auto simp: parseConcatenatedGs1_def Let_def positional_found_def re_test_def
          yymmdd_to_iso_nonempty
          split: option.splits
          dest: gtinMatch_group serialMatch_group batchBeforeSerial_group batchToEnd_group)
qed


lemma primary_decode_batch_lot: "primary_decode res = Some r \<Longrightarrow> batch_no r = lot_no r"
  by (auto simp: primary_decode_def Let_def split: gs1_decoded.splits if_splits)

lemma parseConcatenatedGs1_batch_lot:
  "parseConcatenatedGs1 s = Some r \<Longrightarrow> batch_no r = lot_no r"
  by (auto simp: parseConcatenatedGs1_def Let_def split: if_splits)

text \<open>
  C10. Whenever the GS1 decoder returns a record, its batch number and its lot number
  are the same string: the library path and the positional path both copy the one
  value of identifier 10 into both fields. This holds for every input and every
  behaviour of the library.
\<close>

theorem gs1_batch_equals_lot:
  "parseGs1ToLabelJson decode raw = Some r \<Longrightarrow> batch_no r = lot_no r"
  by (auto simp: parseGs1ToLabelJson_def Let_def split: if_splits option.splits
        dest: primary_decode_batch_lot parseConcatenatedGs1_batch_lot)

theorem gs1_batch_equals_lot_witness:
  "parseGs1ToLabelJson decode_throws concatenated_example
     = Some \<lparr>batch_no = ''7981055'', lot_no = ''7981055'', expiry = ''2027-05-31'',
             upc_gtin = Some ''00350111561014'', serial = Some ''10104541514812172705''\<rparr>
   \<and> batch_no \<lparr>batch_no = ''7981055'', lot_no = ''7981055'', expiry = ''2027-05-31'',
             upc_gtin = Some ''00350111561014'', serial = Some ''10104541514812172705''\<rparr>
     = lot_no \<lparr>batch_no = ''7981055'', lot_no = ''7981055'', expiry = ''2027-05-31'',
             upc_gtin = Some ''00350111561014'', serial = Some ''10104541514812172705''\<rparr>"
proof -
  have h: "parseGs1ToLabelJson decode_throws concatenated_example
     = Some \<lparr>batch_no = ''7981055'', lot_no = ''7981055'', expiry = ''2027-05-31'',
             upc_gtin = Some ''00350111561014'', serial = Some ''10104541514812172705''\<rparr>"
    by code_simp
  show ?thesis
    using h gs1_batch_equals_lot [OF h] by simp
qed

text \<open>
  C7, as amended. The decoder returns null exactly when the pre-processed input is
  empty, or the library yields none of the four fields and the positional decoder
  either refuses the text (fewer than 20 characters once white space is removed) or
  finds none of its patterns in it. So a field that only the positional patterns
  would find is lost when the text is shorter than 20 characters.
\<close>

theorem gs1_null_iff:
  "parseGs1ToLabelJson decode raw = None \<longleftrightarrow>
     preprocess raw = []
     \<or> (\<not> primary_found (decode (preprocess raw))
        \<and> (length (strip_ws (preprocess raw)) < 20
           \<or> \<not> positional_found (strip_ws (preprocess raw))))"
  using primary_decode_None_iff [of "decode (preprocess raw)"]
        parseConcatenatedGs1_None_iff [of "preprocess raw"]
  by (auto simp: parseGs1ToLabelJson_def Let_def split: option.splits)

theorem gs1_null_iff_witness:
  "parseGs1ToLabelJson decode_throws concatenated_example \<noteq> None
   \<and> preprocess concatenated_example \<noteq> []
   \<and> 20 \<le> length (strip_ws (preprocess concatenated_example))
   \<and> positional_found (strip_ws (preprocess concatenated_example))"
proof -
  have a: "preprocess concatenated_example \<noteq> []" by code_simp
  have b: "20 \<le> length (strip_ws (preprocess concatenated_example))" by code_simp
  have c: "positional_found (strip_ws (preprocess concatenated_example))" by code_simp
  show ?thesis
    using a b c gs1_null_iff [of decode_throws concatenated_example] by auto
qed

text \<open>
  The claim as stated fails: in \<open>X0112345678901231\<close> the positional pattern for the GTIN
  occurs, the library rejects the text, and the decoder returns null because the text
  has only 17 characters.
\<close>

theorem gs1_null_counterexample:
  "positional_found (strip_ws (preprocess ''X0112345678901231''))
   \<and> parseGs1ToLabelJson decode_throws ''X0112345678901231'' = None"
  by code_simp

section \<open>The structured-field mapper\<close>

lemma falsy_or_empty: "\<not> falsy x \<Longrightarrow> or_empty x \<noteq> []"
  by (cases x) (auto simp: falsy_def or_empty_def)

lemma clear_if_equal_ids [simp]:
  "upc_gtin (clear_if_equal x lj) = upc_gtin lj" "ref (clear_if_equal x lj) = ref lj"
  by (auto simp: clear_if_equal_def Let_def)

lemma clear_if_equal_cleared:
  "\<not> falsy x \<Longrightarrow> batch_no (clear_if_equal x lj) \<noteq> or_empty x \<and> lot_no (clear_if_equal x lj) \<noteq> or_empty x"
  by (auto simp: clear_if_equal_def Let_def dest: falsy_or_empty)

lemma clear_if_equal_keeps:
  "batch_no (clear_if_equal x lj) \<in> {batch_no lj, []}" "lot_no (clear_if_equal x lj) \<in> {lot_no lj, []}"
  by (auto simp: clear_if_equal_def Let_def)

lemma reconcile_roles:
  "(\<not> falsy (upc_gtin (reconcile lj)) \<longrightarrow>
      batch_no (reconcile lj) \<noteq> or_empty (upc_gtin (reconcile lj))
      \<and> lot_no (reconcile lj) \<noteq> or_empty (upc_gtin (reconcile lj)))
   \<and> (\<not> falsy (ref (reconcile lj)) \<longrightarrow>
      batch_no (reconcile lj) \<noteq> or_empty (ref (reconcile lj))
      \<and> lot_no (reconcile lj) \<noteq> or_empty (ref (reconcile lj)))"
  using clear_if_equal_cleared [of "upc_gtin lj" lj]
        clear_if_equal_cleared [of "ref lj" "clear_if_equal (upc_gtin lj) lj"]
        clear_if_equal_keeps [of "ref lj" "clear_if_equal (upc_gtin lj) lj"]
        falsy_or_empty [of "upc_gtin lj"]
  by (auto simp: reconcile_def Let_def)

text \<open>
  C1, as amended. In every record the mapper returns, neither the batch number nor
  the lot number equals a non-empty product identifier or a non-empty reference. The
  batch number and the lot number may hold the same value (a field such as
  \<open>Product code\<close> fills both), and the reference is not compared with the identifier.
\<close>

theorem reconciled_roles:
  "scanditFieldsToLabelJson decode flds = Inr (lj, raw) \<Longrightarrow>
     (\<not> falsy (upc_gtin lj) \<longrightarrow>
        batch_no lj \<noteq> or_empty (upc_gtin lj) \<and> lot_no lj \<noteq> or_empty (upc_gtin lj))
     \<and> (\<not> falsy (ref lj) \<longrightarrow>
        batch_no lj \<noteq> or_empty (ref lj) \<and> lot_no lj \<noteq> or_empty (ref lj))"
  using reconcile_roles
  by (auto simp: scanditFieldsToLabelJson_def finish_def Let_def split: sum.splits)

theorem reconciled_roles_witness:
  "scanditFieldsToLabelJson decode_throws
     [\<lparr>f_name = ''Batch no'', f_value = ''456085''\<rparr>, \<lparr>f_name = ''Lot no'', f_value = ''123456''\<rparr>,
      \<lparr>f_name = ''Ref no'', f_value = ''456085''\<rparr>, \<lparr>f_name = ''Barcode'', f_value = ''123456''\<rparr>]
   = Inr (\<lparr>batch_no = [], lot_no = [], expiry = [], upc_gtin = Some ''123456'', serial = None,
           ref = Some ''456085''\<rparr>,
          ''Batch no: 456085'' @ [CHR 0x0A] @ ''Lot no: 123456'' @ [CHR 0x0A]
          @ ''Ref no: 456085'' @ [CHR 0x0A] @ ''Barcode: 123456'')
   \<and> batch_no \<lparr>batch_no = [], lot_no = [], expiry = [], upc_gtin = Some ''123456'',
        serial = None, ref = Some ''456085''\<rparr> \<noteq> ''456085''
   \<and> lot_no \<lparr>batch_no = [], lot_no = [], expiry = [], upc_gtin = Some ''123456'',
        serial = None, ref = Some ''456085''\<rparr> \<noteq> ''123456''"
proof -
  have h: "scanditFieldsToLabelJson decode_throws
     [\<lparr>f_name = ''Batch no'', f_value = ''456085''\<rparr>, \<lparr>f_name = ''Lot no'', f_value = ''123456''\<rparr>,
      \<lparr>f_name = ''Ref no'', f_value = ''456085''\<rparr>, \<lparr>f_name = ''Barcode'', f_value = ''123456''\<rparr>]
   = Inr (\<lparr>batch_no = [], lot_no = [], expiry = [], upc_gtin = Some ''123456'', serial = None,
           ref = Some ''456085''\<rparr>,
          ''Batch no: 456085'' @ [CHR 0x0A] @ ''Lot no: 123456'' @ [CHR 0x0A]
          @ ''Ref no: 456085'' @ [CHR 0x0A] @ ''Barcode: 123456'')"
    by code_simp
  show ?thesis
    using h reconciled_roles [OF h] by (simp add: falsy_def or_empty_def)
qed

text \<open>
  The claim as stated fails: the single field \<open>Product code: B0Z7\<close> fills the batch
  number and the lot number with the same non-empty value.
\<close>

theorem unique_roles_counterexample:
  "scanditFieldsToLabelJson decode_throws [\<lparr>f_name = ''Product code'', f_value = ''B0Z7''\<rparr>]
   = Inr (\<lparr>batch_no = ''B0Z7'', lot_no = ''B0Z7'', expiry = [], upc_gtin = None, serial = None,
           ref = None\<rparr>, ''Product code: B0Z7'')
   \<and> \<not> unique_roles \<lparr>batch_no = ''B0Z7'', lot_no = ''B0Z7'', expiry = [], upc_gtin = None,
           serial = None, ref = None\<rparr>"
  by code_simp

lemma dropWhile_rev_dropWhile:
  assumes "xs = [] \<or> \<not> P (hd xs)"
  shows "dropWhile P (rev (dropWhile P (rev xs))) = rev (dropWhile P (rev xs))"
proof (cases "rev (dropWhile P (rev xs))")
  case Nil
  then show ?thesis by (simp only: dropWhile.simps)
next
  case (Cons y ys)
  have split: "xs = rev (dropWhile P (rev xs)) @ rev (takeWhile P (rev xs))"
    by (metis rev_append rev_rev_ident takeWhile_dropWhile_id)
  with Cons have "xs = (y # ys) @ rev (takeWhile P (rev xs))" by simp
  then have "hd xs = y" "xs \<noteq> []" by (metis append_Cons list.sel(1), auto)
  with assms have "\<not> P y" by auto
  with Cons show ?thesis by simp
qed

lemma trim_idem: "trim (trim s) = trim s"
proof -
  have "dropWhile is_space s = [] \<or> \<not> is_space (hd (dropWhile is_space s))"
    using hd_dropWhile [of is_space s] by auto
  from dropWhile_rev_dropWhile [of "dropWhile is_space s" is_space, OF this] show ?thesis
    by (simp add: trim_def)
qed

lemma length_trim_le: "length (trim s) \<le> length s"
proof -
  have "length (trim s) \<le> length (dropWhile is_space s)"
    unfolding trim_def by (metis length_dropWhile_le length_rev)
  also have "\<dots> \<le> length s" by (rule length_dropWhile_le)
  finally show ?thesis .
qed

lemma isProductCodeMisread_trim: "isProductCodeMisread (trim v) = isProductCodeMisread v"
  by (simp add: isProductCodeMisread_def trim_idem)

lemma short_is_misread: "length v \<le> 3 \<Longrightarrow> isProductCodeMisread v"
  using length_trim_le [of v] by (simp add: isProductCodeMisread_def)

lemma output_keys_product_code:
  "FIELD_TO_OUTPUT_KEYS ''Product code'' = Inr (Some [Key_batch_no, Key_lot_no])"
  by (simp add: FIELD_TO_OUTPUT_KEYS_def SCANDIT_FIELD_DEFINITIONS_def)

lemma misread_step:
  assumes "f_name f = ''Product code''" "isProductCodeMisread (f_value f)"
  shows "field_step st f = Inr st"
  using assms
  by (simp add: field_step_def Let_def isProductCodeMisread_trim output_keys_product_code)

lemma run_fields_append:
  "run_fields st (xs @ ys) =
     (case run_fields st xs of Inl e \<Rightarrow> Inl e | Inr st' \<Rightarrow> run_fields st' ys)"
  by (induction xs arbitrary: st) (auto split: sum.splits)

lemma misread_run:
  assumes "f_name f = ''Product code''" "isProductCodeMisread (f_value f)"
  shows "run_fields st (xs @ f # ys) = run_fields st (xs @ ys)"
  using assms by (simp add: run_fields_append misread_step split: sum.splits)

lemma parse_raw_empty: "parseLotAndExpiryFromRaw [] = ([], [])"
  by code_simp

lemma parse_serial_empty: "parseSerialFromRaw [] = []"
  by code_simp

lemma finish_init: "finish decode init_state = (empty_label, [])"
proof -
  have 1: "pick_barcode [] = []"
    by (simp add: pick_barcode_def find_longGs1_def longest_barcode_def)
  have 2: "adopt_short_ref [] empty_label = empty_label"
    by (simp add: adopt_short_ref_def find_shortBarcode_def find_longGs1_def falsy_def)
  have 3: "decode_barcode decode [] empty_label = empty_label"
    by (simp add: decode_barcode_def)
  have 4: "adopt_barcode_gtin [] empty_label = empty_label"
    by (simp add: adopt_barcode_gtin_def)
  have 5: "build_raw [] empty_label = []"
    by (simp add: build_raw_def empty_label_def falsy_def)
  have 6: "raw_fallback [] empty_label = empty_label"
    by (simp add: raw_fallback_def parse_raw_empty Let_def)
  have 7: "serial_fallback [] empty_label = empty_label"
    by (simp add: serial_fallback_def parse_serial_empty Let_def)
  have 8: "reconcile empty_label = empty_label"
    by (simp add: reconcile_def clear_if_equal_def empty_label_def falsy_def)
  show ?thesis
    by (simp add: finish_def init_state_def Let_def 1 2 3 4 5 6 7 8)
qed

lemma no_fields: "scanditFieldsToLabelJson decode [] = Inr (empty_label, [])"
  by (simp add: scanditFieldsToLabelJson_def finish_init)

text \<open>
  C8. A field named \<open>Product code\<close> whose value is a misread (at most three characters,
  or one of the known confusions such as \<open>L0T\<close>, \<open>EXP\<close>, \<open>LAY0UT\<close>, in any letter case)
  is discarded: its turn of the loop changes nothing (no role is written, no line is
  added to the raw text), so the mapper returns for a field list with such a field
  exactly what it returns for the list without it; alone, the field gives the empty
  record and the empty raw text.
\<close>

theorem misread_product_code_discarded:
  "(\<forall>v. length v \<le> 3 \<longrightarrow> isProductCodeMisread v)
   \<and> isProductCodeMisread ''L0T'' \<and> isProductCodeMisread ''EXP''
   \<and> isProductCodeMisread ''LAY0UT'' \<and> isProductCodeMisread ''Lay0ut''
   \<and> (\<forall>decode st f xs ys.
        f_name f = ''Product code'' \<and> isProductCodeMisread (f_value f) \<longrightarrow>
          field_step st f = Inr st
          \<and> scanditFieldsToLabelJson decode (xs @ f # ys)
              = scanditFieldsToLabelJson decode (xs @ ys)
          \<and> scanditFieldsToLabelJson decode [f] = Inr (empty_label, []))"
proof -
  have a: "\<forall>v. length v \<le> 3 \<longrightarrow> isProductCodeMisread v"
    by (simp add: short_is_misread)
  have b: "isProductCodeMisread ''L0T''" "isProductCodeMisread ''EXP''"
    by (simp_all add: short_is_misread)
  have c: "isProductCodeMisread ''LAY0UT''" by code_simp
  have d: "isProductCodeMisread ''Lay0ut''" by code_simp
  have e: "field_step st f = Inr st
          \<and> scanditFieldsToLabelJson decode (xs @ f # ys)
              = scanditFieldsToLabelJson decode (xs @ ys)
          \<and> scanditFieldsToLabelJson decode [f] = Inr (empty_label, [])"
    if "f_name f = ''Product code''" "isProductCodeMisread (f_value f)"
    for decode st f xs ys
  proof -
    have "run_fields init_state (xs @ f # ys) = run_fields init_state (xs @ ys)"
      by (rule misread_run [OF that])
    moreover have "run_fields init_state ([] @ f # []) = run_fields init_state ([] @ [])"
      by (rule misread_run [OF that])
    ultimately show ?thesis
      using misread_step [OF that] no_fields [of decode]
      by (simp add: scanditFieldsToLabelJson_def)
  qed
  from a b c d e show ?thesis by blast
qed

theorem misread_product_code_discarded_witness:
  "isProductCodeMisread (f_value \<lparr>f_name = ''Product code'', f_value = ''L0T''\<rparr>)
   \<and> scanditFieldsToLabelJson decode_throws
        ([\<lparr>f_name = ''Lot no'', f_value = ''20054138''\<rparr>]
         @ \<lparr>f_name = ''Product code'', f_value = ''L0T''\<rparr> # [])
     = scanditFieldsToLabelJson decode_throws ([\<lparr>f_name = ''Lot no'', f_value = ''20054138''\<rparr>] @ [])
   \<and> scanditFieldsToLabelJson decode_throws [\<lparr>f_name = ''Product code'', f_value = ''L0T''\<rparr>]
     = Inr (empty_label, [])"
proof -
  have h: "f_name \<lparr>f_name = ''Product code'', f_value = ''L0T''\<rparr> = ''Product code''
           \<and> isProductCodeMisread (f_value \<lparr>f_name = ''Product code'', f_value = ''L0T''\<rparr>)"
    by (simp add: short_is_misread)
  show ?thesis
    using h misread_product_code_discarded by blast
qed

section \<open>The OCR format registry\<close>












section \<open>The expiry normalizers\<close>

lemma to_upper_cases: "to_upper c = c \<or> (c \<in> set lower_chars \<and> to_upper c \<in> set upper_chars)"
proof (cases "map_of (zip lower_chars upper_chars) c")
  case None
  then show ?thesis by (simp add: to_upper_def)
next
  case (Some u)
  then have "(c, u) \<in> set (zip lower_chars upper_chars)" by (rule map_of_SomeD)
  then have "c \<in> set lower_chars" "u \<in> set upper_chars"
    by (auto dest: set_zip_leftD set_zip_rightD)
  with Some show ?thesis by (simp add: to_upper_def)
qed

lemma digit_not_letter:
  "is_digit c \<Longrightarrow> c \<notin> set lower_chars \<and> c \<notin> set upper_chars"
  by (auto simp: is_digit_def digit_chars_def lower_chars_def upper_chars_def)

lemma to_upper_digit: "is_digit c \<Longrightarrow> to_upper c = c"
  using to_upper_cases [of c] digit_not_letter [of c] by auto

lemma to_upper_is_digit: "is_digit (to_upper c) \<longleftrightarrow> is_digit c"
  using to_upper_cases [of c] digit_not_letter [of "to_upper c"] digit_not_letter [of c]
  by auto

lemma map_to_upper_digits: "map to_upper digit_chars = digit_chars"
  by (simp add: to_upper_digit is_digit_def map_idI)

lemma cls_ok_digit_ci: "cls_ok True digit_chars = is_digit"
proof (rule ext)
  fix d
  show "cls_ok True digit_chars d = is_digit d"
    using to_upper_is_digit [of d]
    by (simp add: cls_ok_def map_to_upper_digits is_digit_def)
qed

lemma cls_ok_digit_any: "cls_ok ci digit_chars = is_digit"
  by (cases ci) (simp_all add: cls_ok_digit cls_ok_digit_ci)

lemma to_upper_upper: "c \<in> set upper_chars \<Longrightarrow> to_upper c = c"
  using to_upper_cases [of c]
  by (auto simp: upper_chars_def lower_chars_def)

lemma lit_ok_True_upper: "c \<in> set upper_chars \<Longrightarrow> lit_ok True c d \<longleftrightarrow> to_upper d = c"
  by (simp add: lit_ok_def to_upper_upper)

lemma re_exec_Bol_sound:
  assumes "re_exec (Seq Bol r) ci s = Some m"
  shows "(before m, after m, caps m) \<in> set (rmatch r ci (None, s, []))"
    and "whole m = take (length s - length (after m)) s"
  using assms by (auto simp: re_exec_Bol split: list.splits)

text \<open>The month alternative consumes three letters that spell a month name.\<close>

lemma bex_eat:
  "(\<exists>x\<in>set (eat P st). Q x) \<longleftrightarrow>
     (\<exists>c cs. fst (snd st) = c # cs \<and> P c \<and> Q (Some c, cs, snd (snd st)))"
  by (cases st) (auto simp: eat_def split: list.splits)

lemma months_sound:
  assumes "st' \<in> set (rmatch months ci st)"
  shows "\<exists>w. fst (snd st) = w @ fst (snd st') \<and> length w = 3
           \<and> (if ci then toUpperCase w else w) \<in> set month_names
           \<and> snd (snd st') = snd (snd st)"
proof (cases ci)
  case True
  with assms show ?thesis
    apply (intro exI [of _ "take 3 (fst (snd st))"])
    apply (simp add: months_def month_names_def lit_def rmatch_Lit_eq in_eat bex_eat
                     lit_ok_True_upper upper_chars_def toUpperCase_def)
    apply (elim disjE exE conjE)
    apply (simp_all)
    done
next
  case False
  with assms show ?thesis
    apply (intro exI [of _ "take 3 (fst (snd st))"])
    apply (simp add: months_def month_names_def lit_def rmatch_Lit_eq in_eat bex_eat)
    apply (elim disjE exE conjE)
    apply (simp_all)
    done
qed

lemma mon_lookup:
  "k \<in> set month_names \<Longrightarrow> \<exists>mm. map_of mon k = Some mm \<and> length mm = 2 \<and> list_all is_digit mm"
  by (auto simp: month_names_def mon_def is_digit_def digit_chars_def)

lemma month_word_hd:
  assumes "toUpperCase w \<in> set month_names"
  shows "w \<noteq> [] \<and> \<not> is_digit (hd w)"
proof -
  from assms obtain c cs where w: "w = c # cs" and "to_upper c \<in> set upper_chars"
    by (cases w) (auto simp: month_names_def toUpperCase_def upper_chars_def)
  then have "\<not> is_digit (to_upper c)" using digit_not_letter by blast
  then show ?thesis using w by (simp add: to_upper_is_digit)
qed

text \<open>A literal that is not a letter matches only itself, with or without the flag \<open>i\<close>.\<close>

lemma lit_ok_plain:
  "c \<notin> set lower_chars \<Longrightarrow> c \<notin> set upper_chars \<Longrightarrow> lit_ok ci c d \<longleftrightarrow> d = c"
  using to_upper_cases [of c] to_upper_cases [of d]
  by (auto simp: lit_ok_def)

lemma plain_chars [simp]:
  "CHR ''-'' \<notin> set lower_chars" "CHR ''-'' \<notin> set upper_chars"
  "CHR ''/'' \<notin> set lower_chars" "CHR ''/'' \<notin> set upper_chars"
  by (simp_all add: lower_chars_def upper_chars_def)

lemma year_month_intro:
  "length d = 4 \<Longrightarrow> list_all is_digit d \<Longrightarrow> length mm = 2 \<Longrightarrow> list_all is_digit mm \<Longrightarrow>
     year_month (d @ CHR ''-'' # mm)"
  by (simp add: year_month_def nth_append)

lemma padStart2_digits:
  assumes "1 \<le> length u" "length u \<le> 2" "list_all is_digit u"
  shows "length (padStart2 u) = 2 \<and> list_all is_digit (padStart2 u)"
proof -
  have "is_digit (CHR ''0'')" by (simp add: is_digit_def digit_chars_def)
  with assms show ?thesis
    by (cases "length u = 1") (auto simp: padStart2_def)
qed

lemma yyyyMmm_sound:
  assumes "re_exec re_yyyyMmm ci x = Some m"
  shows "\<exists>w. x = grp m 1 @ ''-'' @ w \<and> grp m 2 = w
           \<and> length (grp m 1) = 4 \<and> list_all is_digit (grp m 1) \<and> length w = 3
           \<and> (if ci then toUpperCase w else w) \<in> set month_names"
proof -
  have "re_yyyyMmm = Seq Bol (cat [Grp 1 (Rep 4 4 digit), Lit (CHR ''-''), Grp 2 months, Eol])"
    by (simp add: re_yyyyMmm_def)
  with assms have "re_exec (Seq Bol (cat [Grp 1 (Rep 4 4 digit), Lit (CHR ''-''), Grp 2 months, Eol])) ci x = Some m"
    by simp
  from re_exec_Bol_sound(1) [OF this]
  have "(before m, after m, caps m)
          \<in> set (rmatch (cat [Grp 1 (Rep 4 4 digit), Lit (CHR ''-''), Grp 2 months, Eol]) ci (None, x, []))" .
  then show ?thesis
    by (auto simp: digit_def cls_ok_digit_any rx_simps lit_ok_plain
          dest!: rx_dests months_sound split: if_splits)
qed

lemma mmmYyyy_sound:
  assumes "re_exec re_mmmYyyy ci x = Some m"
  shows "\<exists>w sp. x = w @ sp @ grp m 2 \<and> grp m 1 = w \<and> sp \<noteq> []
           \<and> length (grp m 2) = 4 \<and> list_all is_digit (grp m 2) \<and> length w = 3
           \<and> (if ci then toUpperCase w else w) \<in> set month_names"
proof -
  have "re_mmmYyyy = Seq Bol (cat [Grp 1 months, Plus ws, Grp 2 (Rep 4 4 digit), Eol])"
    by (simp add: re_mmmYyyy_def)
  with assms have "re_exec (Seq Bol (cat [Grp 1 months, Plus ws, Grp 2 (Rep 4 4 digit), Eol])) ci x = Some m"
    by simp
  from re_exec_Bol_sound(1) [OF this]
  have "(before m, after m, caps m)
          \<in> set (rmatch (cat [Grp 1 months, Plus ws, Grp 2 (Rep 4 4 digit), Eol]) ci (None, x, []))" .
  then show ?thesis
    apply (clarsimp simp: digit_def ws_def cls_ok_digit_any rx_simps bex_eat
          dest!: rx_dests months_sound)
    apply (auto split: if_splits)
    done
qed

lemma mmmYyyyNoSpace_sound:
  assumes "re_exec re_mmmYyyyNoSpace ci x = Some m"
  shows "\<exists>w. x = w @ grp m 2 \<and> grp m 1 = w
           \<and> length (grp m 2) = 4 \<and> list_all is_digit (grp m 2) \<and> length w = 3
           \<and> (if ci then toUpperCase w else w) \<in> set month_names"
proof -
  have "re_mmmYyyyNoSpace = Seq Bol (cat [Grp 1 months, Grp 2 (Rep 4 4 digit), Eol])"
    by (simp add: re_mmmYyyyNoSpace_def)
  with assms have "re_exec (Seq Bol (cat [Grp 1 months, Grp 2 (Rep 4 4 digit), Eol])) ci x = Some m"
    by simp
  from re_exec_Bol_sound(1) [OF this]
  have "(before m, after m, caps m)
          \<in> set (rmatch (cat [Grp 1 months, Grp 2 (Rep 4 4 digit), Eol]) ci (None, x, []))" .
  then show ?thesis
    by (auto simp: digit_def cls_ok_digit_any rx_simps lit_ok_plain
          dest!: rx_dests months_sound split: if_splits)
qed

lemma slash_sound:
  assumes "re_exec re_slash ci x = Some m"
  shows "x = grp m 1 @ ''/'' @ grp m 2 @ ''/'' @ grp m 3
           \<and> 1 \<le> length (grp m 1) \<and> length (grp m 1) \<le> 2 \<and> list_all is_digit (grp m 1)
           \<and> 1 \<le> length (grp m 2) \<and> length (grp m 2) \<le> 2 \<and> list_all is_digit (grp m 2)
           \<and> length (grp m 3) = 4 \<and> list_all is_digit (grp m 3)"
proof -
  have "re_slash = Seq Bol (cat [Grp 1 (Rep 1 2 digit), Lit (CHR ''/''), Grp 2 (Rep 1 2 digit), Lit (CHR ''/''), Grp 3 (Rep 4 4 digit), Eol])"
    by (simp add: re_slash_def)
  with assms have "re_exec (Seq Bol (cat [Grp 1 (Rep 1 2 digit), Lit (CHR ''/''), Grp 2 (Rep 1 2 digit), Lit (CHR ''/''), Grp 3 (Rep 4 4 digit), Eol])) ci x = Some m"
    by simp
  from re_exec_Bol_sound(1) [OF this]
  have "(before m, after m, caps m)
          \<in> set (rmatch (cat [Grp 1 (Rep 1 2 digit), Lit (CHR ''/''), Grp 2 (Rep 1 2 digit), Lit (CHR ''/''), Grp 3 (Rep 4 4 digit), Eol]) ci (None, x, []))" .
  then show ?thesis
    by (auto simp: digit_def cls_ok_digit_any rx_simps lit_ok_plain
          dest!: rx_dests months_sound split: if_splits)
qed

lemma mmYyyy_sound:
  assumes "re_exec re_mmYyyy ci x = Some m"
  shows "x = grp m 1 @ ''/'' @ grp m 2
           \<and> 1 \<le> length (grp m 1) \<and> length (grp m 1) \<le> 2 \<and> list_all is_digit (grp m 1)
           \<and> length (grp m 2) = 4 \<and> list_all is_digit (grp m 2)"
proof -
  have "re_mmYyyy = Seq Bol (cat [Grp 1 (Rep 1 2 digit), Lit (CHR ''/''), Grp 2 (Rep 4 4 digit), Eol])"
    by (simp add: re_mmYyyy_def)
  with assms have "re_exec (Seq Bol (cat [Grp 1 (Rep 1 2 digit), Lit (CHR ''/''), Grp 2 (Rep 4 4 digit), Eol])) ci x = Some m"
    by simp
  from re_exec_Bol_sound(1) [OF this]
  have "(before m, after m, caps m)
          \<in> set (rmatch (cat [Grp 1 (Rep 1 2 digit), Lit (CHR ''/''), Grp 2 (Rep 4 4 digit), Eol]) ci (None, x, []))" .
  then show ?thesis
    by (auto simp: digit_def cls_ok_digit_any rx_simps lit_ok_plain
          dest!: rx_dests months_sound split: if_splits)
qed

lemma yyyyMmSlash_sound:
  assumes "re_exec re_yyyyMmSlash ci x = Some m"
  shows "x = grp m 1 @ ''/'' @ grp m 2
           \<and> length (grp m 1) = 4 \<and> list_all is_digit (grp m 1)
           \<and> 1 \<le> length (grp m 2) \<and> length (grp m 2) \<le> 2 \<and> list_all is_digit (grp m 2)"
proof -
  have "re_yyyyMmSlash = Seq Bol (cat [Grp 1 (Rep 4 4 digit), Lit (CHR ''/''), Grp 2 (Rep 1 2 digit), Eol])"
    by (simp add: re_yyyyMmSlash_def)
  with assms have "re_exec (Seq Bol (cat [Grp 1 (Rep 4 4 digit), Lit (CHR ''/''), Grp 2 (Rep 1 2 digit), Eol])) ci x = Some m"
    by simp
  from re_exec_Bol_sound(1) [OF this]
  have "(before m, after m, caps m)
          \<in> set (rmatch (cat [Grp 1 (Rep 4 4 digit), Lit (CHR ''/''), Grp 2 (Rep 1 2 digit), Eol]) ci (None, x, []))" .
  then show ?thesis
    by (auto simp: digit_def cls_ok_digit_any rx_simps lit_ok_plain
          dest!: rx_dests months_sound split: if_splits)
qed



lemma normalizeExpiry_a_shape: "normalizeExpiry_a x = Some r \<Longrightarrow> year_month r"
  by (auto simp: normalizeExpiry_a_def split: option.splits if_splits
        dest!: yyyyMmm_sound mon_lookup intro!: year_month_intro)

lemma normalizeExpiry_b_shape: "normalizeExpiry_b x = Some r \<Longrightarrow> year_month r"
  by (auto simp: normalizeExpiry_b_def split: option.splits if_splits
        dest!: mmmYyyy_sound mon_lookup intro!: year_month_intro)

lemma normalizeExpiry_c_shape: "normalizeExpiry_c x = Some r \<Longrightarrow> year_month r"
  by (auto simp: normalizeExpiry_c_def split: option.splits if_splits
        dest!: mmmYyyyNoSpace_sound mon_lookup intro!: year_month_intro)

lemma slash_shape:
  assumes "re_exec re_slash False x = Some m"
  shows "year_month (slice 0 7 (grp m 3 @ ''-'' @ padStart2 (grp m 1) @ ''-'' @ padStart2 (grp m 2)))"
proof -
  from slash_sound [OF assms] have
    g: "1 \<le> length (grp m 1)" "length (grp m 1) \<le> 2" "list_all is_digit (grp m 1)"
       "length (grp m 3) = 4" "list_all is_digit (grp m 3)"
    by auto
  from padStart2_digits [OF g(1,2,3)] have
    p: "length (padStart2 (grp m 1)) = 2" "list_all is_digit (padStart2 (grp m 1))" by auto
  have "slice 0 7 (grp m 3 @ ''-'' @ padStart2 (grp m 1) @ ''-'' @ padStart2 (grp m 2))
          = grp m 3 @ ''-'' @ padStart2 (grp m 1)"
    using g(4) p(1) by (simp add: slice_def)
  then show ?thesis
    using year_month_intro [OF g(4,5) p] by simp
qed

lemma mmYyyy_shape:
  assumes "re_exec re_mmYyyy False x = Some m"
  shows "year_month (grp m 2 @ ''-'' @ padStart2 (grp m 1))"
proof -
  from mmYyyy_sound [OF assms] have
    g: "1 \<le> length (grp m 1)" "length (grp m 1) \<le> 2" "list_all is_digit (grp m 1)"
       "length (grp m 2) = 4" "list_all is_digit (grp m 2)"
    by auto
  from padStart2_digits [OF g(1,2,3)] year_month_intro [OF g(4,5)] show ?thesis by simp
qed

lemma yyyyMmSlash_shape:
  assumes "re_exec re_yyyyMmSlash False x = Some m"
  shows "year_month (grp m 1 @ ''-'' @ padStart2 (grp m 2))"
proof -
  from yyyyMmSlash_sound [OF assms] have
    g: "1 \<le> length (grp m 2)" "length (grp m 2) \<le> 2" "list_all is_digit (grp m 2)"
       "length (grp m 1) = 4" "list_all is_digit (grp m 1)"
    by auto
  from padStart2_digits [OF g(1,2,3)] year_month_intro [OF g(4,5)] show ?thesis by simp
qed

text \<open>The normalizer of the format registry returns its input or a \<open>YYYY-MM\<close> text.\<close>

lemma normalizeExpiry_labelFormats_shape:
  "normalizeExpiry_labelFormats x = x \<or> year_month (normalizeExpiry_labelFormats x)"
  by (auto simp: normalizeExpiry_labelFormats_def split: option.splits
        dest: normalizeExpiry_a_shape normalizeExpiry_b_shape normalizeExpiry_c_shape
              slash_shape mmYyyy_shape yyyyMmSlash_shape)

text \<open>A canonical expiry is made of digits and hyphens, and starts with a digit.\<close>

lemma year_month_chars:
  assumes "year_month s"
  shows "\<forall>c\<in>set s. is_digit c \<or> c = CHR ''-''" and "s \<noteq> []" and "is_digit (hd s)"
proof -
  from assms have len: "length s = 7" and d1: "list_all is_digit (take 4 s)"
    and h: "s ! 4 = CHR ''-''" and d2: "list_all is_digit (drop 5 s)"
    by (auto simp: year_month_def)
  have s: "s = take 4 s @ s ! 4 # drop 5 s"
    using len id_take_nth_drop [of 4 s] by simp
  have "\<forall>c\<in>set (take 4 s @ s ! 4 # drop 5 s). is_digit c \<or> c = CHR ''-''"
    using d1 d2 h by (auto simp: list_all_iff)
  with s show "\<forall>c\<in>set s. is_digit c \<or> c = CHR ''-''" by simp
  from len show "s \<noteq> []" by auto
  from len d1 show "is_digit (hd s)"
    by (cases s) (auto simp: list_all_iff)
qed

lemma canonical_chars:
  assumes "canonical_expiry s"
  shows "\<forall>c\<in>set s. is_digit c \<or> c = CHR ''-''" and "s \<noteq> []" and "is_digit (hd s)"
    and "length s = 7 \<or> length s = 10"
proof -
  from assms consider (ym) "year_month s" | (ymd) "year_month_day s"
    by (auto simp: canonical_expiry_def)
  then have "(\<forall>c\<in>set s. is_digit c \<or> c = CHR ''-'') \<and> s \<noteq> [] \<and> is_digit (hd s)
      \<and> (length s = 7 \<or> length s = 10)"
  proof cases
    case ym
    with year_month_chars [OF ym] show ?thesis by (auto simp: year_month_def)
  next
    case ymd
    then have len: "length s = 10" and ym: "year_month (take 7 s)"
      and h: "s ! 7 = CHR ''-''" and d: "list_all is_digit (drop 8 s)"
      by (auto simp: year_month_day_def)
    have s: "s = take 7 s @ s ! 7 # drop 8 s"
      using len id_take_nth_drop [of 7 s] by simp
    have "\<forall>c\<in>set (take 7 s @ s ! 7 # drop 8 s). is_digit c \<or> c = CHR ''-''"
      using year_month_chars(1) [OF ym] h d by (auto simp: list_all_iff)
    with s have 1: "\<forall>c\<in>set s. is_digit c \<or> c = CHR ''-''" by simp
    have "hd (take 7 s) = hd s" using len by (cases s) auto
    with year_month_chars(3) [OF ym] have "is_digit (hd s)" by simp
    with 1 len show ?thesis by auto
  qed
  then show "\<forall>c\<in>set s. is_digit c \<or> c = CHR ''-''" and "s \<noteq> []" and "is_digit (hd s)"
    and "length s = 7 \<or> length s = 10" by auto
qed

lemma slash_not_digit: "\<not> is_digit (CHR ''/'')"
  by (simp add: is_digit_def digit_chars_def)

lemma canonical_unmatched:
  assumes "canonical_expiry x"
  shows "re_exec re_yyyyMmm ci x = None" "re_exec re_mmmYyyy True x = None"
    "re_exec re_mmmYyyyNoSpace True x = None" "re_exec re_slash ci x = None"
    "re_exec re_mmYyyy ci x = None" "re_exec re_yyyyMmSlash ci x = None"
proof -
  note c = canonical_chars [OF assms]
  show "re_exec re_yyyyMmm ci x = None"
  proof (rule ccontr)
    assume "re_exec re_yyyyMmm ci x \<noteq> None"
    then obtain m where "re_exec re_yyyyMmm ci x = Some m" by auto
    from yyyyMmm_sound [OF this] have "length x = 8" by auto
    with c(4) show False by simp
  qed
  show "re_exec re_mmmYyyy True x = None"
  proof (rule ccontr)
    assume "re_exec re_mmmYyyy True x \<noteq> None"
    then obtain m where "re_exec re_mmmYyyy True x = Some m" by auto
    from mmmYyyy_sound [OF this] obtain w sp where
      "x = w @ sp @ grp m 2" "toUpperCase w \<in> set month_names" by auto
    with month_word_hd [of w] have "\<not> is_digit (hd x)" by auto
    with c(3) show False by simp
  qed
  show "re_exec re_mmmYyyyNoSpace True x = None"
  proof (rule ccontr)
    assume "re_exec re_mmmYyyyNoSpace True x \<noteq> None"
    then obtain m where "re_exec re_mmmYyyyNoSpace True x = Some m" by auto
    from mmmYyyyNoSpace_sound [OF this] obtain w where
      "x = w @ grp m 2" "toUpperCase w \<in> set month_names" by auto
    with month_word_hd [of w] have "\<not> is_digit (hd x)" by auto
    with c(3) show False by simp
  qed
  show "re_exec re_slash ci x = None"
  proof (rule ccontr)
    assume "re_exec re_slash ci x \<noteq> None"
    then obtain m where "re_exec re_slash ci x = Some m" by auto
    from slash_sound [OF this] have "x = grp m 1 @ ''/'' @ grp m 2 @ ''/'' @ grp m 3" by simp
    then have "CHR ''/'' \<in> set x" by (metis append_Cons in_set_conv_decomp)
    with c(1) slash_not_digit show False by auto
  qed
  show "re_exec re_mmYyyy ci x = None"
  proof (rule ccontr)
    assume "re_exec re_mmYyyy ci x \<noteq> None"
    then obtain m where "re_exec re_mmYyyy ci x = Some m" by auto
    from mmYyyy_sound [OF this] have "x = grp m 1 @ ''/'' @ grp m 2" by simp
    then have "CHR ''/'' \<in> set x" by (metis append_Cons in_set_conv_decomp)
    with c(1) slash_not_digit show False by auto
  qed
  show "re_exec re_yyyyMmSlash ci x = None"
  proof (rule ccontr)
    assume "re_exec re_yyyyMmSlash ci x \<noteq> None"
    then obtain m where "re_exec re_yyyyMmSlash ci x = Some m" by auto
    from yyyyMmSlash_sound [OF this] have "x = grp m 1 @ ''/'' @ grp m 2" by simp
    then have "CHR ''/'' \<in> set x" by (metis append_Cons in_set_conv_decomp)
    with c(1) slash_not_digit show False by auto
  qed
qed

lemma normalizeExpiry_labelFormats_canonical:
  "canonical_expiry x \<Longrightarrow> normalizeExpiry_labelFormats x = x"
  by (simp add: normalizeExpiry_labelFormats_def normalizeExpiry_a_def normalizeExpiry_b_def
        normalizeExpiry_c_def canonical_unmatched)

lemma normalizeExpiry_labelFormats_idem:
  "normalizeExpiry_labelFormats (normalizeExpiry_labelFormats x) = normalizeExpiry_labelFormats x"
  using normalizeExpiry_labelFormats_shape [of x]
        normalizeExpiry_labelFormats_canonical [of "normalizeExpiry_labelFormats x"]
  by (auto simp: canonical_expiry_def)

text \<open>
  C9. The normalizer of the format registry is idempotent on every string, and it
  returns an expiry that is already canonical (\<open>YYYY-MM\<close> or \<open>YYYY-MM-DD\<close>) unchanged.
\<close>

theorem normalizeExpiry_idempotent:
  "normalizeExpiry_labelFormats (normalizeExpiry_labelFormats x) = normalizeExpiry_labelFormats x
   \<and> (canonical_expiry x \<longrightarrow> normalizeExpiry_labelFormats x = x)"
  using normalizeExpiry_labelFormats_idem normalizeExpiry_labelFormats_canonical by blast

theorem normalizeExpiry_idempotent_witness:
  "canonical_expiry ''2027-03-15'' \<and> normalizeExpiry_labelFormats ''2027-03-15'' = ''2027-03-15''
   \<and> normalizeExpiry_labelFormats (normalizeExpiry_labelFormats ''MAR 2027'')
       = normalizeExpiry_labelFormats ''MAR 2027''"
proof -
  have c: "canonical_expiry ''2027-03-15''" by code_simp
  show ?thesis
    using c normalizeExpiry_idempotent [of "''2027-03-15''"]
      normalizeExpiry_idempotent [of "''MAR 2027''"] by blast
qed

lemma labelFormats_examples:
  "normalizeExpiry_labelFormats ''2027-MAR'' = ''2027-03''"
  "normalizeExpiry_labelFormats ''MAR 2027'' = ''2027-03''"
  "normalizeExpiry_labelFormats ''MAR2027'' = ''2027-03''"
  "normalizeExpiry_labelFormats ''03/2027'' = ''2027-03''"
  "normalizeExpiry_labelFormats ''2027/03'' = ''2027-03''"
  "normalizeExpiry_labelFormats ''03/27'' = ''03/27''"
  by code_simp+

lemma forMapping_examples:
  "normalizeExpiryForMapping ''2027-MAR'' = ''2027-03''"
  "normalizeExpiryForMapping ''MAR 2027'' = ''2027-03''"
  "normalizeExpiryForMapping ''MAR2027'' = ''2027-03''"
  "normalizeExpiryForMapping ''03/2027'' = ''03/2027''"
  "normalizeExpiryForMapping ''2027/03'' = ''2027-03''"
  "normalizeExpiryForMapping ''03/27'' = ''2027-03''"
  "normalizeExpiryForMapping ''03/49'' = ''2049-03''"
  "normalizeExpiryForMapping ''03/50'' = ''1950-03''"
  by code_simp+

lemma scandit_examples:
  "normalizeExpiry_scandit ''2027-MAR'' = ''2027-03''"
  "normalizeExpiry_scandit ''MAR 2027'' = ''2027-03''"
  "normalizeExpiry_scandit ''MAR2027'' = ''2027-03''"
  "normalizeExpiry_scandit ''03/2027'' = ''2027-03''"
  "normalizeExpiry_scandit ''2027/03'' = ''2027-03''"
  "normalizeExpiry_scandit ''03/27'' = ''2027-03''"
  by code_simp+

lemma forMapping_unrecognized:
  assumes "\<forall>r\<in>set [re_yyyyMmm, re_mmmYyyy, re_mmmYyyyNoSpace, re_yyyyMmSlash, re_mmYySlash].
            re_exec r False (toUpperCase (trim x)) = None"
  shows "normalizeExpiryForMapping x = x"
  using assms by (simp add: normalizeExpiryForMapping_def Let_def)

lemma scandit_unrecognized:
  assumes "normalizeExpiryForMapping (trim x) = trim x"
    "\<forall>r\<in>set [re_yyyyMm, re_mmDdYyyy, re_ddMmYyyy, re_mmYyyy]. re_exec r False (trim x) = None"
  shows "normalizeExpiry_scandit x = trim x"
  using assms by (simp add: normalizeExpiry_scandit_def Let_def)

text \<open>
  C4, as amended. The repository has three normalizers. The one of the format
  registry turns \<open>2027-MAR\<close>, \<open>MAR 2027\<close>, \<open>MAR2027\<close>, \<open>03/2027\<close> and \<open>2027/03\<close> into
  \<open>2027-03\<close> and has no pattern for \<open>MM/YY\<close>: it returns \<open>03/27\<close> unchanged.
  \<open>normalizeExpiryForMapping\<close> has the \<open>MM/YY\<close> pattern (pivot 50) and none for
  \<open>MM/YYYY\<close>: it returns \<open>03/2027\<close> unchanged and turns the other five into \<open>2027-03\<close>.
  The mapper's normalizer, which tries \<open>normalizeExpiryForMapping\<close> and then the numeric
  patterns, turns all six into \<open>2027-03\<close>. None of them fails: the first returns its
  input or a \<open>YYYY-MM\<close> text, and the other two return their input (the mapper's: its
  trimmed input) when no pattern matches.
\<close>

theorem expiry_normalizers_coverage:
  "normalizeExpiry_labelFormats ''2027-MAR'' = ''2027-03''
   \<and> normalizeExpiry_labelFormats ''MAR 2027'' = ''2027-03''
   \<and> normalizeExpiry_labelFormats ''MAR2027'' = ''2027-03''
   \<and> normalizeExpiry_labelFormats ''03/2027'' = ''2027-03''
   \<and> normalizeExpiry_labelFormats ''2027/03'' = ''2027-03''
   \<and> normalizeExpiry_labelFormats ''03/27'' = ''03/27''
   \<and> normalizeExpiryForMapping ''2027-MAR'' = ''2027-03''
   \<and> normalizeExpiryForMapping ''MAR 2027'' = ''2027-03''
   \<and> normalizeExpiryForMapping ''MAR2027'' = ''2027-03''
   \<and> normalizeExpiryForMapping ''03/2027'' = ''03/2027''
   \<and> normalizeExpiryForMapping ''2027/03'' = ''2027-03''
   \<and> normalizeExpiryForMapping ''03/27'' = ''2027-03''
   \<and> normalizeExpiryForMapping ''03/49'' = ''2049-03''
   \<and> normalizeExpiryForMapping ''03/50'' = ''1950-03''
   \<and> normalizeExpiry_scandit ''2027-MAR'' = ''2027-03''
   \<and> normalizeExpiry_scandit ''MAR 2027'' = ''2027-03''
   \<and> normalizeExpiry_scandit ''MAR2027'' = ''2027-03''
   \<and> normalizeExpiry_scandit ''03/2027'' = ''2027-03''
   \<and> normalizeExpiry_scandit ''2027/03'' = ''2027-03''
   \<and> normalizeExpiry_scandit ''03/27'' = ''2027-03''
   \<and> (\<forall>x. normalizeExpiry_labelFormats x = x \<or> year_month (normalizeExpiry_labelFormats x))
   \<and> (\<forall>x. (\<forall>r\<in>set [re_yyyyMmm, re_mmmYyyy, re_mmmYyyyNoSpace, re_yyyyMmSlash, re_mmYySlash].
              re_exec r False (toUpperCase (trim x)) = None)
            \<longrightarrow> normalizeExpiryForMapping x = x)
   \<and> (\<forall>x. normalizeExpiryForMapping (trim x) = trim x
            \<and> (\<forall>r\<in>set [re_yyyyMm, re_mmDdYyyy, re_ddMmYyyy, re_mmYyyy].
                  re_exec r False (trim x) = None)
            \<longrightarrow> normalizeExpiry_scandit x = trim x)"
  using labelFormats_examples forMapping_examples scandit_examples
    normalizeExpiry_labelFormats_shape forMapping_unrecognized scandit_unrecognized
  by blast

theorem expiry_normalizers_coverage_witness:
  "normalizeExpiryForMapping ''27.03.2027'' = ''27.03.2027''
   \<and> normalizeExpiry_scandit '' 27.03.2027 '' = trim '' 27.03.2027 ''"
proof -
  have a: "\<forall>r\<in>set [re_yyyyMmm, re_mmmYyyy, re_mmmYyyyNoSpace, re_yyyyMmSlash, re_mmYySlash].
              re_exec r False (toUpperCase (trim ''27.03.2027'')) = None"
    by code_simp
  have b: "normalizeExpiryForMapping (trim '' 27.03.2027 '') = trim '' 27.03.2027 ''"
    by code_simp
  have c: "\<forall>r\<in>set [re_yyyyMm, re_mmDdYyyy, re_ddMmYyyy, re_mmYyyy].
              re_exec r False (trim '' 27.03.2027 '') = None"
    by code_simp
  show ?thesis
    using a b c expiry_normalizers_coverage by blast
qed

text \<open>
  The claim as stated fails for both normalizers it names: the one of the format
  registry leaves \<open>03/27\<close> as it is, and \<open>normalizeExpiryForMapping\<close> leaves \<open>03/2027\<close> as
  it is.
\<close>

theorem expiry_normalizers_counterexample:
  "normalizeExpiry_labelFormats ''03/27'' = ''03/27''
   \<and> normalizeExpiry_labelFormats ''03/27'' \<noteq> ''2027-03''
   \<and> normalizeExpiryForMapping ''03/2027'' = ''03/2027''
   \<and> normalizeExpiryForMapping ''03/2027'' \<noteq> ''2027-03''"
  by code_simp

section \<open>The positional decoder\<close>

lemma eat_Cons [simp]: "eat P (p, c # cs, k) = (if P c then [(Some c, cs, k)] else [])"
  by (simp add: eat_def)

lemma eat_Nil [simp]: "eat P (p, [], k) = []"
  by (simp add: eat_def)

text \<open>A repetition applies to every text that starts with the right number of members.\<close>

lemma rep_complete:
  "lo \<le> length u \<Longrightarrow> length u \<le> hi \<Longrightarrow> list_all P u \<Longrightarrow>
     \<exists>q. (q, v, k) \<in> set (rep_greedy (eat P) lo hi (p, u @ v, k))"
proof (induction u arbitrary: lo hi p)
  case Nil
  then show ?case by (cases hi) auto
next
  case (Cons c u)
  then obtain hi' where hi: "hi = Suc hi'" by (cases hi) auto
  from Cons.prems hi have "lo - 1 \<le> length u" "length u \<le> hi'" "list_all P u" "P c" by auto
  from Cons.IH [OF this(1,2,3)] obtain q where
    "(q, v, k) \<in> set (rep_greedy (eat P) (lo - 1) hi' (Some c, u @ v, k))" by blast
  with \<open>P c\<close> hi show ?case by (intro exI [of _ q]) simp
qed

















section \<open>Six-digit dates in the batch/lot field\<close>

lemma digit_not_special:
  "is_digit c \<Longrightarrow> \<not> is_space c \<and> c \<noteq> CHR ''-'' \<and> c \<noteq> CHR ''+''"
  by (auto simp: is_digit_def digit_chars_def is_space_def space_chars_def)

lemma parseInt_digits:
  assumes "ds \<noteq> []" "list_all is_digit ds"
  shows "parseInt ds = Some (int (nat_of_digits ds))"
proof -
  from assms obtain c cs where ds: "ds = c # cs" by (cases ds) auto
  with assms(2) have c: "is_digit c" by simp
  have tw: "takeWhile is_digit ds = ds"
    using assms(2) by (simp add: takeWhile_eq_all_conv list_all_iff)
  show ?thesis
    using digit_not_special [OF c] tw assms(1)
    by (simp add: parseInt_def Let_def ds)
qed

lemma re_exec_Bol_complete:
  "st \<in> set (rmatch r ci (None, x, [])) \<Longrightarrow> re_exec (Seq Bol r) ci x \<noteq> None"
  by (auto simp: re_exec_Bol split: list.splits)

lemma sixDigits_iff: "re_test re_sixDigits False s \<longleftrightarrow> length s = 6 \<and> list_all is_digit s"
proof
  assume "re_test re_sixDigits False s"
  then obtain m where m: "re_exec re_sixDigits False s = Some m"
    by (auto simp: re_test_def)
  have "re_sixDigits = Seq Bol (cat [Rep 6 6 digit, Eol])"
    by (simp add: re_sixDigits_def)
  with m have "re_exec (Seq Bol (cat [Rep 6 6 digit, Eol])) False s = Some m" by simp
  from re_exec_Bol_sound(1) [OF this]
  show "length s = 6 \<and> list_all is_digit s"
    by (auto simp: digit_def cls_ok_digit rx_simps dest!: rx_dests)
next
  assume a: "length s = 6 \<and> list_all is_digit s"
  then have "6 \<le> length s" "length s \<le> 6" "list_all is_digit s" by auto
  from rep_complete [OF this, of "[]" "[]" None] obtain q where
    "(q, [], []) \<in> set (rep_greedy (eat is_digit) 6 6 (None, s, []))" by auto
  then have "(q, [], []) \<in> set (rmatch (cat [Rep 6 6 digit, Eol]) False (None, s, []))"
    by (auto simp: digit_def cls_ok_digit rmatch_Cls_eq intro!: bexI [of _ "(q, [], [])"])
  from re_exec_Bol_complete [OF this] show "re_test re_sixDigits False s"
    by (simp add: re_test_def re_sixDigits_def)
qed

text \<open>\<open>isLikelyYYMMDD\<close> decides what the specification calls a valid \<open>YYMMDD\<close>.\<close>

lemma isLikelyYYMMDD_iff: "isLikelyYYMMDD s = valid_yymmdd s"
proof (cases "length s = 6 \<and> list_all is_digit s")
  case False
  then show ?thesis
    by (auto simp: isLikelyYYMMDD_def valid_yymmdd_def sixDigits_iff)
next
  case True
  then have a: "slice 2 4 s \<noteq> []" "list_all is_digit (slice 2 4 s)"
    and b: "slice 4 6 s \<noteq> []" "list_all is_digit (slice 4 6 s)"
    by (auto simp: slice_def list_all_iff dest: in_set_takeD in_set_dropD)
  show ?thesis
    using True parseInt_digits [OF a] parseInt_digits [OF b]
    by (auto simp: isLikelyYYMMDD_def valid_yymmdd_def sixDigits_iff Let_def num_ge_def num_le_def)
qed

lemma output_keys_batch_lot:
  "FIELD_TO_OUTPUT_KEYS ''Batch/Lot (numeric)'' = Inr (Some [Key_batch_no, Key_lot_no])"
  by (simp add: FIELD_TO_OUTPUT_KEYS_def SCANDIT_FIELD_DEFINITIONS_def)

text \<open>
  C3, as amended. \<open>isLikelyYYMMDD\<close> decides what the specification calls a valid
  \<open>YYMMDD\<close> (six digits, month 1 to 12, day 1 to 31). In the turn of the loop for a
  field named \<open>Batch/Lot (numeric)\<close>, a trimmed value that is a valid \<open>YYMMDD\<close> goes to
  the expiry as it stands (the six digits, not converted to \<open>YYYY-MM-DD\<close>) and the
  batch and lot numbers are not written; any other value (\<open>999999\<close>, say) fills the
  batch and the lot number, and the expiry is not written.
\<close>

theorem batch_lot_numeric_redirect:
  "f_name f = ''Batch/Lot (numeric)'' \<Longrightarrow>
     isLikelyYYMMDD (trim (f_value f)) = valid_yymmdd (trim (f_value f))
     \<and> (valid_yymmdd (trim (f_value f)) \<longrightarrow>
           field_step st f =
             Inr (st\<lparr>lines := lines st @ [f_name f @ '': '' @ f_value f],
                     labelJson := (labelJson st)\<lparr>expiry := trim (f_value f)\<rparr>\<rparr>))
     \<and> (\<not> valid_yymmdd (trim (f_value f)) \<longrightarrow>
           field_step st f =
             Inr (st\<lparr>lines := lines st @ [f_name f @ '': '' @ f_value f],
                     labelJson := (labelJson st)\<lparr>batch_no := trim (f_value f),
                                                 lot_no := trim (f_value f)\<rparr>\<rparr>))"
  by (simp add: field_step_def Let_def output_keys_batch_lot isLikelyYYMMDD_iff set_key_def)

theorem batch_lot_numeric_redirect_witness:
  "valid_yymmdd (trim ''261201'')
   \<and> field_step init_state \<lparr>f_name = ''Batch/Lot (numeric)'', f_value = ''261201''\<rparr>
       = Inr \<lparr>labelJson = \<lparr>batch_no = [], lot_no = [], expiry = ''261201'', upc_gtin = None,
                            serial = None, ref = None\<rparr>,
              lines = [''Batch/Lot (numeric): 261201''], barcodeValues = []\<rparr>
   \<and> \<not> valid_yymmdd (trim ''999999'')
   \<and> field_step init_state \<lparr>f_name = ''Batch/Lot (numeric)'', f_value = ''999999''\<rparr>
       = Inr \<lparr>labelJson = \<lparr>batch_no = ''999999'', lot_no = ''999999'', expiry = [],
                            upc_gtin = None, serial = None, ref = None\<rparr>,
              lines = [''Batch/Lot (numeric): 999999''], barcodeValues = []\<rparr>"
proof -
  have a: "valid_yymmdd (trim ''261201'')" by code_simp
  have b: "\<not> valid_yymmdd (trim ''999999'')" by code_simp
  have t: "trim ''261201'' = ''261201''" "trim ''999999'' = ''999999''" by code_simp+
  show ?thesis
    using a b
      batch_lot_numeric_redirect
        [of "\<lparr>f_name = ''Batch/Lot (numeric)'', f_value = ''261201''\<rparr>" init_state]
      batch_lot_numeric_redirect
        [of "\<lparr>f_name = ''Batch/Lot (numeric)'', f_value = ''999999''\<rparr>" init_state]
    by (simp add: t init_state_def empty_label_def)
qed

text \<open>
  The claim as stated fails: the expiry written for \<open>261201\<close> is \<open>261201\<close> itself, which is
  not a canonical expiry. In the record the mapper returns for this one field the
  raw-text fallback has moreover read the six digits of the field's own line as a lot
  number.
\<close>

theorem yymmdd_expiry_counterexample:
  "scanditFieldsToLabelJson decode_throws
     [\<lparr>f_name = ''Batch/Lot (numeric)'', f_value = ''261201''\<rparr>]
     = Inr (\<lparr>batch_no = [], lot_no = ''261201'', expiry = ''261201'', upc_gtin = None,
             serial = None, ref = None\<rparr>, ''Batch/Lot (numeric): 261201'')
   \<and> valid_yymmdd ''261201'' \<and> \<not> canonical_expiry ''261201''
   \<and> parse_lot_from_raw ''Batch/Lot (numeric): 261201'' = ''261201''"
  by code_simp

section \<open>The form of the expiry returned\<close>


















































text \<open>The positional decoder renders the six digits of identifier 17 as \<open>YYYY-MM-DD\<close>.\<close>

lemma yymmdd_to_iso_shape:
  assumes "length d = 6" "list_all is_digit d"
  shows "year_month_day (yymmdd_to_iso d)"
proof -
  from assms(1) obtain a b c e f g where d: "d = [a, b, c, e, f, g]"
    by (auto simp: eval_nat_numeral length_Suc_conv)
  have "is_digit (CHR ''1'')" "is_digit (CHR ''9'')" "is_digit (CHR ''2'')" "is_digit (CHR ''0'')"
    by (simp_all add: is_digit_def digit_chars_def)
  with assms(2) d show ?thesis
    by (simp add: yymmdd_to_iso_def slice_def year_month_day_def year_month_def Let_def)
qed

lemma parseConcatenatedGs1_expiry:
  assumes "parseConcatenatedGs1 s = Some r"
  shows "expiry r = [] \<or> year_month_day (expiry r)"
proof -
  have "expiry r = (case re_exec re_expMatch False (strip_ws s) of
                      Some m \<Rightarrow> yymmdd_to_iso (grp m 1) | None \<Rightarrow> [])"
    using assms by (auto simp: parseConcatenatedGs1_def Let_def split: if_splits)
  then show ?thesis
    using expMatch_group [of "strip_ws s"] yymmdd_to_iso_shape
    by (auto split: option.splits)
qed

lemma primary_decode_expiry:
  "primary_decode (DecodeData data) = Some r \<Longrightarrow>
     expiry r = slice 0 10 (elToStr (map_of data ''expDate''))"
  by (auto simp: primary_decode_def Let_def slice_def split: if_splits)

lemma parseGs1ToLabelJson_expiry:
  assumes "parseGs1ToLabelJson decode raw = Some r"
  shows "(\<exists>data. decode (preprocess raw) = DecodeData data
            \<and> expiry r = slice 0 10 (elToStr (map_of data ''expDate'')))
         \<or> expiry r = [] \<or> year_month_day (expiry r)"
proof (cases "primary_decode (decode (preprocess raw))")
  case None
  with assms have "parseConcatenatedGs1 (preprocess raw) = Some r"
    by (simp add: parseGs1ToLabelJson_def Let_def split: if_splits)
  from parseConcatenatedGs1_expiry [OF this] show ?thesis by blast
next
  case (Some r')
  with assms have r: "r' = r"
    by (simp add: parseGs1ToLabelJson_def Let_def split: if_splits)
  from Some obtain data where d: "decode (preprocess raw) = DecodeData data"
    by (cases "decode (preprocess raw)") (simp_all add: primary_decode_def)
  with Some r primary_decode_expiry [of data r] show ?thesis by simp
qed





















end
